theory Spec2Isabelle
  imports Complex_Main
begin

section \<open>Load balancer (src/core/loadBalancer.js)\<close>

text \<open>
  An upstream as the balancer reads it from \<open>upstreams.json\<close>: \<open>weight\<close>, the health
  check path and the health check timeout may be absent (\<open>None\<close> is JavaScript's
  \<open>undefined\<close>). Weights are JSON numbers; the model takes them as integers, which
  JavaScript's doubles represent and add exactly below \<open>2^53\<close>.
\<close>

record upstream =
  up_id :: string
  up_name :: string
  up_url :: string
  up_key :: "string option"
  up_weight :: "int option"
  up_enabled :: bool
  up_healthPath :: "string option"
  up_healthTimeout :: "int option"

record loadBalancer_config =
  strategy :: "string option"
  healthCheckEnabled :: bool
  failoverEnabled :: bool

record upstreams_config =
  cfg_upstreams :: "upstream list"
  loadBalancer :: loadBalancer_config

text \<open>
  A value stored in the counter map: a number, or \<open>NaN\<close> (what \<open>undefined + w\<close> gives when the
  map has no entry for an id).
\<close>

datatype jsnum = Num int | NaN

text \<open>
  The fields of the \<open>LoadBalancer\<close> object. \<open>weightCounters\<close> is \<open>None\<close> until the first
  weighted selection and after \<open>reload\<close>; \<open>healthCheckInterval\<close> holds the period in
  milliseconds of the running timer.
\<close>

record lb_state =
  upstreams :: "upstream list"
  currentIndex :: nat
  healthStatus :: "string \<rightharpoonup> bool"
  healthCheckInterval :: "int option"
  weightCounters :: "(string \<rightharpoonup> jsnum) option"

datatype lb_error =
  NoHealthyUpstream    \<comment> \<open>the Error thrown by \<open>selectUpstream\<close>\<close>
| NoUpstreamAvailable  \<comment> \<open>the Error thrown by a strategy on an empty list\<close>
| TypeError            \<comment> \<open>a property read on \<open>undefined\<close>\<close>

text \<open>\<open>updateUpstreams\<close>: keep the enabled upstreams of the configuration.\<close>

definition updateUpstreams :: "upstreams_config \<Rightarrow> lb_state \<Rightarrow> lb_state" where
  "updateUpstreams config st = st\<lparr>upstreams := filter up_enabled (cfg_upstreams config)\<rparr>"

subsection \<open>Health probing\<close>

text \<open>What one probe of \<open>checkUpstreamHealth\<close> ends with.\<close>

datatype probe_outcome =
  ProbeResponse int   \<comment> \<open>the response callback ran, with this status code\<close>
| ProbeError          \<comment> \<open>the request's error event\<close>
| ProbeTimeout        \<comment> \<open>the request's timeout event\<close>
| ProbeException      \<comment> \<open>the catch block (for instance an unparsable url)\<close>

definition updateHealthStatus :: "string \<Rightarrow> bool \<Rightarrow> lb_state \<Rightarrow> lb_state" where
  "updateHealthStatus upstreamId isHealthy st =
     st\<lparr>healthStatus := (healthStatus st)(upstreamId \<mapsto> isHealthy)\<rparr>"

definition isHealthy_of :: "probe_outcome \<Rightarrow> bool" where
  "isHealthy_of out =
     (case out of
        ProbeResponse statusCode \<Rightarrow> statusCode \<ge> 200 \<and> statusCode < 400
      | ProbeError \<Rightarrow> False
      | ProbeTimeout \<Rightarrow> False
      | ProbeException \<Rightarrow> False)"

text \<open>The request a probe sends: method, path and timeout.\<close>

definition probe_request :: "upstream \<Rightarrow> string \<times> string \<times> int" where
  "probe_request u =
     (''GET'',
      (case up_healthPath u of None \<Rightarrow> ''/health'' | Some p \<Rightarrow> if p = [] then ''/health'' else p),
      (case up_healthTimeout u of None \<Rightarrow> 5000 | Some t \<Rightarrow> if t = 0 then 5000 else t))"

definition checkUpstreamHealth :: "(upstream \<Rightarrow> probe_outcome) \<Rightarrow> upstream \<Rightarrow> lb_state \<Rightarrow> lb_state" where
  "checkUpstreamHealth probe u st = updateHealthStatus (up_id u) (isHealthy_of (probe u)) st"

text \<open>\<open>performHealthCheck\<close>: one probe for every upstream of the list.\<close>

definition performHealthCheck :: "(upstream \<Rightarrow> probe_outcome) \<Rightarrow> lb_state \<Rightarrow> lb_state" where
  "performHealthCheck probe st = foldl (\<lambda>s u. checkUpstreamHealth probe u s) st (upstreams st)"

text \<open>
  \<open>startHealthCheck\<close>: nothing when health checking is disabled; otherwise a timer of
  \<open>interval\<close> milliseconds is installed and one round of probes runs at once.
\<close>

definition interval :: int where
  "interval = 300000"

definition startHealthCheck ::
  "upstreams_config \<Rightarrow> (upstream \<Rightarrow> probe_outcome) \<Rightarrow> lb_state \<Rightarrow> lb_state" where
  "startHealthCheck config probe st =
     (if \<not> healthCheckEnabled (loadBalancer config) then st
      else performHealthCheck probe (st\<lparr>healthCheckInterval := Some interval\<rparr>))"

definition getHealthyUpstreams :: "lb_state \<Rightarrow> upstream list" where
  "getHealthyUpstreams st =
     filter (\<lambda>u. healthStatus st (up_id u) \<noteq> Some False) (upstreams st)"

subsection \<open>Selection strategies\<close>

text \<open>\<open>upstream.weight || 100\<close>: an absent weight and the weight 0 both give 100.\<close>

definition weight_or_100 :: "upstream \<Rightarrow> int" where
  "weight_or_100 u = (case up_weight u of None \<Rightarrow> 100 | Some w \<Rightarrow> if w = 0 then 100 else w)"

definition totalWeight :: "upstream list \<Rightarrow> int" where
  "totalWeight ups = foldl (\<lambda>sum u. sum + weight_or_100 u) 0 ups"

definition roundRobinSelection :: "upstream list \<Rightarrow> lb_state \<Rightarrow> lb_error + (upstream \<times> lb_state)" where
  "roundRobinSelection ups st =
     (if length ups = 0 then Inl NoUpstreamAvailable
      else Inr (ups ! (currentIndex st mod length ups),
                st\<lparr>currentIndex := (currentIndex st + 1) mod length ups\<rparr>))"

text \<open>\<open>this.weightCounters.get(id) + w\<close> and \<open>currentWeight - totalWeight\<close> on stored values.\<close>

definition counter_plus :: "jsnum option \<Rightarrow> int \<Rightarrow> jsnum" where
  "counter_plus c w = (case c of Some (Num n) \<Rightarrow> Num (n + w) | _ \<Rightarrow> NaN)"

definition counter_minus :: "jsnum option \<Rightarrow> int \<Rightarrow> jsnum" where
  "counter_minus c w = (case c of Some (Num n) \<Rightarrow> Num (n - w) | _ \<Rightarrow> NaN)"

definition init_counters :: "upstream list \<Rightarrow> (string \<rightharpoonup> jsnum)" where
  "init_counters ups = foldl (\<lambda>m u. m(up_id u \<mapsto> Num 0)) Map.empty ups"

text \<open>
  The \<open>forEach\<close> of \<open>weightedRoundRobinSelection\<close>: every candidate's counter grows by its
  weight; \<open>selected\<close> and \<open>maxCurrentWeight\<close> follow the first strictly greater value
  (a comparison with \<open>NaN\<close> is false).
\<close>

fun wrr_scan ::
  "upstream list \<Rightarrow> (string \<rightharpoonup> jsnum) \<Rightarrow> upstream option \<Rightarrow> int
     \<Rightarrow> (string \<rightharpoonup> jsnum) \<times> upstream option \<times> int" where
  "wrr_scan [] m selected maxCurrentWeight = (m, selected, maxCurrentWeight)"
| "wrr_scan (u # us) m selected maxCurrentWeight =
     (let currentWeight = counter_plus (m (up_id u)) (weight_or_100 u);
          m' = m(up_id u \<mapsto> currentWeight)
      in case currentWeight of
           Num c \<Rightarrow> if c > maxCurrentWeight then wrr_scan us m' (Some u) c
                    else wrr_scan us m' selected maxCurrentWeight
         | NaN \<Rightarrow> wrr_scan us m' selected maxCurrentWeight)"

definition weightedRoundRobinSelection ::
  "upstream list \<Rightarrow> lb_state \<Rightarrow> lb_error + (upstream \<times> lb_state)" where
  "weightedRoundRobinSelection ups st =
     (if length ups = 0 then Inl NoUpstreamAvailable
      else if totalWeight ups = 0 then roundRobinSelection ups st
      else
        let m0 = (case weightCounters st of None \<Rightarrow> init_counters ups | Some m \<Rightarrow> m)
        in case wrr_scan ups m0 None (- 1) of
             (m1, Some s, _) \<Rightarrow>
               Inr (s, st\<lparr>weightCounters :=
                         Some (m1(up_id s \<mapsto> counter_minus (m1 (up_id s)) (totalWeight ups)))\<rparr>)
           | (m1, None, _) \<Rightarrow> Inr (hd ups, st\<lparr>weightCounters := Some m1\<rparr>))"

text \<open>
  \<open>Math.random()\<close> is a parameter \<open>r\<close>, a rational in \<open>[0, 1)\<close>. An index outside the
  list reads \<open>undefined\<close>, and the log line's \<open>selected.name\<close> then throws.
\<close>

definition randomSelection :: "rat \<Rightarrow> upstream list \<Rightarrow> lb_state \<Rightarrow> lb_error + (upstream \<times> lb_state)" where
  "randomSelection r ups st =
     (if length ups = 0 then Inl NoUpstreamAvailable
      else let index = \<lfloor>r * of_nat (length ups)\<rfloor>
           in if 0 \<le> index \<and> index < int (length ups) then Inr (ups ! nat index, st)
              else Inl TypeError)"

fun weighted_random_loop :: "rat \<Rightarrow> upstream list \<Rightarrow> upstream option" where
  "weighted_random_loop randomNum [] = None"
| "weighted_random_loop randomNum (u # us) =
     (let randomNum' = randomNum - of_int (weight_or_100 u)
      in if randomNum' \<le> 0 then Some u else weighted_random_loop randomNum' us)"

definition weightedRandomSelection ::
  "rat \<Rightarrow> upstream list \<Rightarrow> lb_state \<Rightarrow> lb_error + (upstream \<times> lb_state)" where
  "weightedRandomSelection r ups st =
     (if length ups = 0 then Inl NoUpstreamAvailable
      else if totalWeight ups = 0 then randomSelection r ups st
      else case weighted_random_loop (r * of_int (totalWeight ups)) ups of
             Some u \<Rightarrow> Inr (u, st)
           | None \<Rightarrow> Inr (last ups, st))"

text \<open>
  \<open>selectUpstream\<close>: the candidates, then the strategy. A thrown Error is \<open>Inl\<close>; the
  mutated balancer comes back with the selected upstream.
\<close>

definition candidates_of :: "upstreams_config \<Rightarrow> lb_state \<Rightarrow> lb_error + upstream list" where
  "candidates_of config st =
     (if healthCheckEnabled (loadBalancer config) then
        (if length (getHealthyUpstreams st) = 0 then
           (if failoverEnabled (loadBalancer config) then Inr (upstreams st)
            else Inl NoHealthyUpstream)
         else Inr (getHealthyUpstreams st))
      else Inr (upstreams st))"

definition selectUpstream ::
  "upstreams_config \<Rightarrow> rat \<Rightarrow> lb_state \<Rightarrow> lb_error + (upstream \<times> lb_state)" where
  "selectUpstream config r st =
     (let strategy = (case strategy (loadBalancer config) of
                        None \<Rightarrow> ''weighted_round_robin''
                      | Some s \<Rightarrow> if s = [] then ''weighted_round_robin'' else s)
      in case candidates_of config st of
           Inl e \<Rightarrow> Inl e
         | Inr candidates \<Rightarrow>
             (if strategy = ''round_robin'' then roundRobinSelection candidates st
              else if strategy = ''weighted_round_robin'' then weightedRoundRobinSelection candidates st
              else if strategy = ''random'' then randomSelection r candidates st
              else if strategy = ''weighted_random'' then weightedRandomSelection r candidates st
              else weightedRoundRobinSelection candidates st))"

text \<open>\<open>reload\<close>: new upstream list, counters and index reset, probe schedule restarted.\<close>

definition reload :: "upstreams_config \<Rightarrow> (upstream \<Rightarrow> probe_outcome) \<Rightarrow> lb_state \<Rightarrow> lb_state" where
  "reload config probe st =
     startHealthCheck config probe
       ((updateUpstreams config st)\<lparr>weightCounters := None, currentIndex := 0,
                                     healthCheckInterval := None\<rparr>)"

text \<open>The constructor: empty fields, then \<open>initialize\<close>.\<close>

definition new_LoadBalancer :: "upstreams_config \<Rightarrow> (upstream \<Rightarrow> probe_outcome) \<Rightarrow> lb_state" where
  "new_LoadBalancer config probe =
     startHealthCheck config probe
       (updateUpstreams config
          \<lparr>upstreams = [], currentIndex = 0, healthStatus = Map.empty,
           healthCheckInterval = None, weightCounters = None\<rparr>)"

subsection \<open>Notions used to state the balancer's properties\<close>










text \<open>Concrete upstreams and balancers for the examples.\<close>

definition example_upstream :: "string \<Rightarrow> string \<Rightarrow> int option \<Rightarrow> bool \<Rightarrow> upstream" where
  "example_upstream i n w e =
     \<lparr>up_id = i, up_name = n, up_url = ''https://'' @ i @ ''.example.com'', up_key = None,
      up_weight = w, up_enabled = e, up_healthPath = None, up_healthTimeout = None\<rparr>"

definition upstream_A :: upstream where
  "upstream_A = example_upstream ''a'' ''A'' (Some 3) True"

definition upstream_B :: upstream where
  "upstream_B = example_upstream ''b'' ''B'' (Some 1) True"

definition upstream_Z :: upstream where
  "upstream_Z = example_upstream ''z'' ''Z'' (Some 0) True"

definition upstream_D :: upstream where
  "upstream_D = example_upstream ''d'' ''D'' (Some 5) False"

definition example_config :: "upstream list \<Rightarrow> string \<Rightarrow> bool \<Rightarrow> bool \<Rightarrow> upstreams_config" where
  "example_config ups s h f =
     \<lparr>cfg_upstreams = ups,
      loadBalancer = \<lparr>strategy = Some s, healthCheckEnabled = h, failoverEnabled = f\<rparr>\<rparr>"

definition no_probe :: "upstream \<Rightarrow> probe_outcome" where
  "no_probe u = ProbeError"

definition fresh_balancer :: "upstream list \<Rightarrow> lb_state" where
  "fresh_balancer ups =
     new_LoadBalancer (example_config ups ''weighted_round_robin'' False False) no_probe"



definition probe_only_B :: "upstream \<Rightarrow> probe_outcome" where
  "probe_only_B u = (if up_id u = ''b'' then ProbeResponse 200 else ProbeResponse 503)"

definition config_ABD :: "bool \<Rightarrow> upstreams_config" where
  "config_ABD failover =
     example_config [upstream_A, upstream_B, upstream_D] ''weighted_round_robin'' True failover"

section \<open>Wildcard matcher (src/utils/helpers.js)\<close>

text \<open>
  JavaScript strings are modelled as \<open>string\<close>, a character being a code unit below 256.

  \<open>matchPattern\<close> escapes the pattern, turns every \<open>*\<close> into \<open>.*\<close> and hands
  \<open>^...$\<close> with the flag \<open>i\<close> to \<open>RegExp\<close>. The two replacements are modelled on
  strings; the regular expression engine is modelled for the sources that the two
  replacements can produce: escaped characters, literal characters, \<open>.*\<close> and the
  quantifier \<open>?\<close>, which is not escaped.
\<close>

text \<open>The character class \<open>[.+^${}()|[\]\\]\<close> of the first \<open>replace\<close>.\<close>

definition escaped_chars :: "char list" where
  "escaped_chars = [CHR ''.'', CHR ''+'', CHR ''^'', CHR ''$'', CHR ''{'', CHR ''}'', CHR ''('', CHR '')'',
                    CHR ''|'', CHR ''['', CHR '']'', CHR 0x5C]"

text \<open>\<open>.replace(/[.+^${}()|[\]\\]/g, '\\$&')\<close>: a backslash (0x5C) before every such character.\<close>

fun escape_special :: "string \<Rightarrow> string" where
  "escape_special [] = []"
| "escape_special (c # cs) =
     (if c \<in> set escaped_chars then CHR 0x5C # c # escape_special cs else c # escape_special cs)"

text \<open>\<open>.replace(/\*/g, '.*')\<close>.\<close>

fun star_to_dot_star :: "string \<Rightarrow> string" where
  "star_to_dot_star [] = []"
| "star_to_dot_star (c # cs) =
     (if c = CHR ''*'' then CHR ''.'' # CHR ''*'' # star_to_dot_star cs else c # star_to_dot_star cs)"

text \<open>
  A term of the regular expression: an atom (a character to match, or the dot) and how
  often it may occur. A lazy quantifier accepts the same strings as the greedy one, so
  laziness is not recorded.
\<close>

datatype atom = Lit char | AnyChar

datatype quantifier = Once | Optional | Star

text \<open>
  \<open>new RegExp\<close> on the text between \<open>^\<close> and \<open>$\<close>; \<open>None\<close> is a SyntaxError
  (a quantifier with nothing to repeat, a backslash at the end).
\<close>

fun parse_quantifier :: "string \<Rightarrow> quantifier \<times> string" where
  "parse_quantifier (c # d # rest) =
     (if c = CHR ''*'' then (Star, if d = CHR ''?'' then rest else d # rest)
      else if c = CHR ''?'' then (Optional, if d = CHR ''?'' then rest else d # rest)
      else (Once, c # d # rest))"
| "parse_quantifier [c] =
     (if c = CHR ''*'' then (Star, []) else if c = CHR ''?'' then (Optional, []) else (Once, [c]))"
| "parse_quantifier [] = (Once, [])"

function parse_terms :: "string \<Rightarrow> (atom \<times> quantifier) list option" where
  "parse_terms [] = Some []"
| "parse_terms (c # cs) =
     (if c = CHR ''*'' \<or> c = CHR ''?'' then None
      else if c = CHR 0x5C then
        (case cs of
           [] \<Rightarrow> None
         | e # rest \<Rightarrow>
             (case parse_terms (snd (parse_quantifier rest)) of
                None \<Rightarrow> None
              | Some ts \<Rightarrow> Some ((Lit e, fst (parse_quantifier rest)) # ts)))
      else
        (case parse_terms (snd (parse_quantifier cs)) of
           None \<Rightarrow> None
         | Some ts \<Rightarrow>
             Some ((if c = CHR ''.'' then AnyChar else Lit c, fst (parse_quantifier cs)) # ts)))"
  by pat_completeness auto
termination
proof -
  have len: "length (snd (parse_quantifier s)) \<le> length s" for s
    by (induction s rule: parse_quantifier.induct) auto
  have lt: "length (snd (parse_quantifier s)) < Suc (length s)"
       "length (snd (parse_quantifier s)) < Suc (Suc (length s))" for s
    using len[of s] by simp_all
  show ?thesis
    by (relation "measure length") (auto simp: lt)
qed

text \<open>
  Comparison under the flag \<open>i\<close>: two code units match when their upper-case forms are
  the same. Below 256 the lower-case letters are \<open>a\<close> to \<open>z\<close> and 0xE0 to 0xFE without
  0xF7, each 32 above its upper-case form; every other code unit stands for itself.
\<close>

definition canonicalize :: "char \<Rightarrow> char" where
  "canonicalize c =
     (let n = (of_char c :: nat)
      in if (97 \<le> n \<and> n \<le> 122) \<or> (224 \<le> n \<and> n \<le> 254 \<and> n \<noteq> 247) then char_of (n - 32) else c)"

text \<open>The dot matches every character but a line terminator (line feed, carriage return).\<close>

definition is_line_terminator :: "char \<Rightarrow> bool" where
  "is_line_terminator c = (c = CHR 0x0A \<or> c = CHR 0x0D)"

fun atom_matches :: "atom \<Rightarrow> char \<Rightarrow> bool" where
  "atom_matches (Lit c) x = (canonicalize x = canonicalize c)"
| "atom_matches AnyChar x = (\<not> is_line_terminator x)"

text \<open>\<open>regex.test(text)\<close> for the terms between \<open>^\<close> and \<open>$\<close>.\<close>

function regex_test :: "(atom \<times> quantifier) list \<Rightarrow> string \<Rightarrow> bool" where
  "regex_test [] text = (text = [])"
| "regex_test ((a, Once) # ts) [] = False"
| "regex_test ((a, Once) # ts) (x # xs) = (atom_matches a x \<and> regex_test ts xs)"
| "regex_test ((a, Optional) # ts) [] = regex_test ts []"
| "regex_test ((a, Optional) # ts) (x # xs) =
     (regex_test ts (x # xs) \<or> (atom_matches a x \<and> regex_test ts xs))"
| "regex_test ((a, Star) # ts) [] = regex_test ts []"
| "regex_test ((a, Star) # ts) (x # xs) =
     (regex_test ts (x # xs) \<or> (atom_matches a x \<and> regex_test ((a, Star) # ts) xs))"
  by pat_completeness auto
termination
  by (relation "measure (\<lambda>(ts, text). length ts + length text)") auto

definition matchPattern :: "string \<Rightarrow> string \<Rightarrow> bool" where
  "matchPattern pattern text =
     (if pattern = [] \<or> text = [] then False
      else if pattern = ''*'' then True
      else if pattern = text then True
      else (case parse_terms (star_to_dot_star (escape_special pattern)) of
              None \<Rightarrow> False
            | Some ts \<Rightarrow> regex_test ts text))"

text \<open>\<open>findMatchingPattern\<close>: the first pattern of the list that matches.\<close>

definition findMatchingPattern :: "string list \<Rightarrow> string \<Rightarrow> string option" where
  "findMatchingPattern patterns text =
     (if text = [] then None else find (\<lambda>pattern. matchPattern pattern text) patterns)"

text \<open>
  \<open>findMatchingLimits\<close>: the entry under the model's own name, else the entry of the
  first key, in the object's key order, that matches as a pattern. The object is an
  association list in key order.
\<close>

definition findMatchingLimits :: "(string \<times> 'v) list \<Rightarrow> string \<Rightarrow> 'v option" where
  "findMatchingLimits limitsConfig modelName =
     (if modelName = [] then None
      else case map_of limitsConfig modelName of
             Some v \<Rightarrow> Some v
           | None \<Rightarrow>
               (case find (\<lambda>(pattern, v). matchPattern pattern modelName) limitsConfig of
                  None \<Rightarrow> None
                | Some (pattern, v) \<Rightarrow> Some v))"

text \<open>
  The matcher in the words of the specification: \<open>*\<close> matches any run of characters,
  the empty one included, every other character matches itself, and letters match
  without regard to case.
\<close>

fun glob_match :: "string \<Rightarrow> string \<Rightarrow> bool" where
  "glob_match [] text = (text = [])"
| "glob_match (p # ps) text =
     (if p = CHR ''*'' then (\<exists>k \<in> set [0..<Suc (length text)]. glob_match ps (drop k text))
      else (case text of [] \<Rightarrow> False | x # xs \<Rightarrow> canonicalize x = canonicalize p \<and> glob_match ps xs))"

section \<open>Usage service (src/services/usageService.js)\<close>

text \<open>
  JavaScript numbers are modelled as exact rationals: sums, products and quotients are
  the mathematical ones, without the rounding of double arithmetic.
\<close>

text \<open>\<open>Math.round\<close>: the nearest integer, a half rounding up.\<close>

definition Math_round :: "rat \<Rightarrow> int" where
  "Math_round x = \<lfloor>x + 1 / 2\<rfloor>"

text \<open>\<open>Math.round(x * 1000000) / 1000000\<close>.\<close>

definition round6 :: "rat \<Rightarrow> rat" where
  "round6 x = of_int (Math_round (x * 1000000)) / 1000000"

text \<open>An entry of \<open>modelPricing\<close> in \<open>config/pricing.json\<close>: prices per 1000 tokens.\<close>

record model_pricing =
  price_input :: rat
  price_output :: rat
  price_cacheCreation :: rat
  price_cacheRead :: rat

text \<open>The token counts of a request, as \<open>extractTokenUsage\<close> returns them.\<close>

record token_usage =
  inputTokens :: rat
  outputTokens :: rat
  cacheCreationTokens :: rat
  cacheReadTokens :: rat

record cost =
  inputCost :: rat
  outputCost :: rat
  cacheCreationCost :: rat
  cacheReadCost :: rat
  totalCost :: rat

text \<open>
  \<open>calculateCost\<close>. \<open>MODEL_PRICING\<close> is read from \<open>config/pricing.json\<close>, which is not
  part of the sources; it is a parameter, an association list in the key order of the
  file. (\<open>usage.inputTokens || 0\<close> is \<open>usage.inputTokens\<close> on numbers.)
\<close>

definition calculateCost :: "(string \<times> model_pricing) list \<Rightarrow> string \<Rightarrow> token_usage \<Rightarrow> cost" where
  "calculateCost MODEL_PRICING model usage =
     (case findMatchingLimits MODEL_PRICING model of
        None \<Rightarrow>
          \<lparr>inputCost = 0, outputCost = 0, cacheCreationCost = 0, cacheReadCost = 0, totalCost = 0\<rparr>
      | Some pricing \<Rightarrow>
          (let inputCost = inputTokens usage / 1000 * price_input pricing;
               outputCost = outputTokens usage / 1000 * price_output pricing;
               cacheCreationCost = cacheCreationTokens usage / 1000 * price_cacheCreation pricing;
               cacheReadCost = cacheReadTokens usage / 1000 * price_cacheRead pricing;
               totalCost = inputCost + outputCost + cacheCreationCost + cacheReadCost
           in \<lparr>inputCost = round6 inputCost, outputCost = round6 outputCost,
               cacheCreationCost = round6 cacheCreationCost, cacheReadCost = round6 cacheReadCost,
               totalCost = round6 totalCost\<rparr>))"

subsection \<open>Daily usage files\<close>

text \<open>
  A line of a daily usage file as \<open>JSON.parse\<close> returns it: the fields that the
  aggregation reads from a record written by \<open>recordUsage\<close>.
\<close>

record usage_record =
  r_model :: string
  r_timestamp :: string
  r_totalTokens :: rat
  r_inputTokens :: rat
  r_outputTokens :: rat
  r_cacheCreationTokens :: rat
  r_cacheReadTokens :: rat
  r_totalCost :: rat
  r_inputCost :: rat
  r_outputCost :: rat
  r_cacheCreationCost :: rat
  r_cacheReadCost :: rat
  r_duration :: rat
  r_statusCode :: int

text \<open>The scalar fields of an aggregation object, and the object with its two maps.\<close>

record totals =
  totalRequests :: int
  totalTokens :: rat
  agg_inputTokens :: rat
  agg_outputTokens :: rat
  agg_cacheCreationTokens :: rat
  agg_cacheReadTokens :: rat
  agg_totalCost :: rat
  agg_inputCost :: rat
  agg_outputCost :: rat
  agg_cacheCreationCost :: rat
  agg_cacheReadCost :: rat
  avgCost :: rat
  totalDuration :: rat
  avgDuration :: int
  errorCount :: int
  errorRate :: int

record aggregation = totals +
  byModel :: "string \<rightharpoonup> totals"
  byHour :: "int \<rightharpoonup> totals"

definition empty_totals :: totals where
  "empty_totals =
     \<lparr>totalRequests = 0, totalTokens = 0, agg_inputTokens = 0, agg_outputTokens = 0,
      agg_cacheCreationTokens = 0, agg_cacheReadTokens = 0, agg_totalCost = 0, agg_inputCost = 0,
      agg_outputCost = 0, agg_cacheCreationCost = 0, agg_cacheReadCost = 0, avgCost = 0,
      totalDuration = 0, avgDuration = 0, errorCount = 0, errorRate = 0\<rparr>"

definition getEmptyUsageAggregation :: aggregation where
  "getEmptyUsageAggregation = totals.extend empty_totals
     (aggregation.fields Map.empty Map.empty)"

text \<open>
  \<open>mergeUsageAggregation(target, source)\<close> where \<open>source\<close> is the object that
  \<open>aggregateUsageRecords\<close> builds from one record.
\<close>

definition merge_record :: "'a totals_scheme \<Rightarrow> usage_record \<Rightarrow> 'a totals_scheme" where
  "merge_record target r =
     target\<lparr>totalRequests := totalRequests target + 1,
            totalTokens := totalTokens target + r_totalTokens r,
            agg_inputTokens := agg_inputTokens target + r_inputTokens r,
            agg_outputTokens := agg_outputTokens target + r_outputTokens r,
            agg_cacheCreationTokens := agg_cacheCreationTokens target + r_cacheCreationTokens r,
            agg_cacheReadTokens := agg_cacheReadTokens target + r_cacheReadTokens r,
            agg_totalCost := agg_totalCost target + r_totalCost r,
            agg_inputCost := agg_inputCost target + r_inputCost r,
            agg_outputCost := agg_outputCost target + r_outputCost r,
            agg_cacheCreationCost := agg_cacheCreationCost target + r_cacheCreationCost r,
            agg_cacheReadCost := agg_cacheReadCost target + r_cacheReadCost r,
            totalDuration := totalDuration target + r_duration r,
            errorCount := errorCount target + (if r_statusCode r \<ge> 400 then 1 else 0)\<rparr>"

text \<open>
  The body of the \<open>forEach\<close> of \<open>aggregateUsageRecords\<close>: the record is added to the
  totals, to the entry of its model and to the entry of its hour.
  \<open>new Date(record.timestamp).getHours()\<close> depends on the time zone of the process and
  is the parameter \<open>getHours\<close>.
\<close>

definition aggregate_step :: "(string \<Rightarrow> int) \<Rightarrow> aggregation \<Rightarrow> usage_record \<Rightarrow> aggregation" where
  "aggregate_step getHours a r =
     (let a1 = merge_record a r;
          m = (case byModel a1 (r_model r) of None \<Rightarrow> empty_totals | Some t \<Rightarrow> t);
          a2 = a1\<lparr>byModel := (byModel a1)(r_model r \<mapsto> merge_record m r)\<rparr>;
          hour = getHours (r_timestamp r);
          h = (case byHour a2 hour of None \<Rightarrow> empty_totals | Some t \<Rightarrow> t)
      in a2\<lparr>byHour := (byHour a2)(hour \<mapsto> merge_record h r)\<rparr>)"

definition aggregateUsageRecords :: "(string \<Rightarrow> int) \<Rightarrow> usage_record list \<Rightarrow> aggregation" where
  "aggregateUsageRecords getHours records =
     (let a = foldl (aggregate_step getHours) getEmptyUsageAggregation records
      in if totalRequests a > 0 then
           a\<lparr>avgDuration := Math_round (totalDuration a / of_int (totalRequests a)),
             errorRate := Math_round (of_int (errorCount a) / of_int (totalRequests a) * 100),
             avgCost := round6 (agg_totalCost a / of_int (totalRequests a))\<rparr>
         else a)"

text \<open>
  \<open>String.prototype.trim\<close> and \<open>split('\n')\<close>. The white space below code unit 256 is
  tab, line feed, vertical tab, form feed, carriage return, space and no-break space.
\<close>

definition is_white_space :: "char \<Rightarrow> bool" where
  "is_white_space c = ((of_char c :: nat) \<in> {9, 10, 11, 12, 13, 32, 160})"

definition trim :: "string \<Rightarrow> string" where
  "trim s = rev (dropWhile is_white_space (rev (dropWhile is_white_space s)))"

fun split_newline :: "string \<Rightarrow> string list" where
  "split_newline [] = [[]]"
| "split_newline (c # cs) =
     (if c = CHR 0x0A then [] # split_newline cs
      else (case split_newline cs of
              [] \<Rightarrow> [[c]]
            | line # lines \<Rightarrow> (c # line) # lines))"

text \<open>
  \<open>.map(line => JSON.parse(line))\<close>: the first line that \<open>JSON.parse\<close> rejects throws,
  and no list is built.
\<close>

fun parse_lines :: "(string \<Rightarrow> 'a option) \<Rightarrow> string list \<Rightarrow> 'a list option" where
  "parse_lines parseLine [] = Some []"
| "parse_lines parseLine (line # lines) =
     (case parseLine line of
        None \<Rightarrow> None
      | Some r \<Rightarrow> (case parse_lines parseLine lines of None \<Rightarrow> None | Some rs \<Rightarrow> Some (r # rs)))"

datatype fs_error = ENOENT | EACCES

datatype usage_error = SyntaxError | FsError fs_error

text \<open>
  \<open>getDailyUsage\<close>. \<open>parseLine\<close> is \<open>JSON.parse\<close> on a line of the file (\<open>None\<close> when
  it throws); \<open>file\<close> is what \<open>fs.readFile\<close> gives for the tenant's file of the day.
  A rejected promise is \<open>Inl\<close>.
\<close>

definition getDailyUsage ::
  "(string \<Rightarrow> usage_record option) \<Rightarrow> (string \<Rightarrow> int) \<Rightarrow> fs_error + string
     \<Rightarrow> usage_error + aggregation" where
  "getDailyUsage parseLine getHours file =
     (case file of
        Inl e \<Rightarrow> (if e = ENOENT then Inr getEmptyUsageAggregation else Inl (FsError e))
      | Inr content \<Rightarrow>
          (case parse_lines parseLine
                  (filter (\<lambda>line. trim line \<noteq> []) (split_newline (trim content))) of
             None \<Rightarrow> Inl SyntaxError
           | Some records \<Rightarrow> Inr (aggregateUsageRecords getHours records)))"

subsection \<open>Limit check\<close>

text \<open>A tenant of \<open>tenants.json\<close>; \<open>tn_maxUSD\<close> is \<open>limits.daily.maxUSD\<close>, if present.\<close>

record tenant =
  tn_id :: string
  tn_name :: string
  tn_key :: string
  tn_enabled :: bool
  tn_allowedModels :: "string list"
  tn_maxUSD :: "rat option"

datatype limit_check =
  NoLimit
| WithinLimit rat rat rat         \<comment> \<open>current cost, additional cost, new total\<close>
| LimitExceeded rat rat rat rat   \<comment> \<open>current cost, additional cost, new total, limit\<close>

definition exceeded :: "limit_check \<Rightarrow> bool" where
  "exceeded c = (case c of LimitExceeded a b n l \<Rightarrow> True | _ \<Rightarrow> False)"

text \<open>\<open>configManager.getTenant\<close>.\<close>

definition getTenant :: "tenant list \<Rightarrow> string \<Rightarrow> tenant option" where
  "getTenant tenants tenantId = find (\<lambda>t. tn_id t = tenantId) tenants"

text \<open>
  \<open>checkLimitsExceeded\<close>; \<open>todayUsage\<close> is the outcome of \<open>getDailyUsage\<close> for the tenant
  and today. A missing cap and the cap 0 both mean no limit (\<open>!tenant.limits.daily.maxUSD\<close>).
\<close>

definition checkLimitsExceeded ::
  "tenant list \<Rightarrow> (string \<times> model_pricing) list \<Rightarrow> (string \<Rightarrow> usage_error + aggregation)
     \<Rightarrow> string \<Rightarrow> string \<Rightarrow> token_usage \<Rightarrow> usage_error + limit_check" where
  "checkLimitsExceeded tenants MODEL_PRICING todayUsage tenantId model tokensToAdd =
     (case getTenant tenants tenantId of
        None \<Rightarrow> Inr NoLimit
      | Some tenant \<Rightarrow>
          (case tn_maxUSD tenant of
             None \<Rightarrow> Inr NoLimit
           | Some maxUSD \<Rightarrow>
               if maxUSD = 0 then Inr NoLimit
               else (case todayUsage tenantId of
                       Inl e \<Rightarrow> Inl e
                     | Inr usage \<Rightarrow>
                         (let currentCost = agg_totalCost usage;
                              additionalCost = calculateCost MODEL_PRICING model tokensToAdd;
                              newTotalCost = currentCost + totalCost additionalCost
                          in if newTotalCost > maxUSD
                             then Inr (LimitExceeded currentCost (totalCost additionalCost) newTotalCost maxUSD)
                             else Inr (WithinLimit currentCost (totalCost additionalCost) newTotalCost)))))"

text \<open>
  \<open>getCurrentLimitStatus\<close>, the entry \<open>limits.usd\<close>: used, limit, percentage, exceeded.
\<close>

definition getCurrentLimitStatus ::
  "tenant \<Rightarrow> aggregation \<Rightarrow> (rat \<times> rat \<times> int \<times> bool) option" where
  "getCurrentLimitStatus tenant todayUsage =
     (case tn_maxUSD tenant of
        None \<Rightarrow> None
      | Some maxUSD \<Rightarrow>
          if maxUSD = 0 then None
          else Some (agg_totalCost todayUsage, maxUSD,
                     Math_round (agg_totalCost todayUsage / maxUSD * 100),
                     agg_totalCost todayUsage \<ge> maxUSD))"

subsection \<open>Notions used to state the properties of the matcher and of the pricer\<close>

text \<open>The regular expression source that \<open>matchPattern\<close> builds between \<open>^\<close> and \<open>$\<close>.\<close>

definition encode_pattern :: "string \<Rightarrow> string" where
  "encode_pattern p = star_to_dot_star (escape_special p)"

text \<open>The term that a character of a pattern without \<open>?\<close> becomes.\<close>

definition term_of :: "char \<Rightarrow> atom \<times> quantifier" where
  "term_of c = (if c = CHR ''*'' then (AnyChar, Star) else (Lit c, Once))"

text \<open>A pricing table and token counts for the examples.\<close>

definition example_pricing :: "(string \<times> model_pricing) list" where
  "example_pricing =
     [(''claude-3-5-haiku-20241022'',
         \<lparr>price_input = 4 / 10000, price_output = 4 / 10000,
          price_cacheCreation = 1 / 1000, price_cacheRead = 1 / 10000\<rparr>),
      (''*sonnet*'',
         \<lparr>price_input = 3 / 1000, price_output = 15 / 1000,
          price_cacheCreation = 375 / 100000, price_cacheRead = 3 / 10000\<rparr>)]"


text \<open>The lines of a daily file that reach \<open>JSON.parse\<close>, and files for the examples.\<close>

definition daily_lines :: "string \<Rightarrow> string list" where
  "daily_lines content = filter (\<lambda>line. trim line \<noteq> []) (split_newline (trim content))"

definition sample_line :: string where
  "sample_line = ''{\"requestId\":\"r1\",\"tenantId\":\"t1\",\"timestamp\":\"2025-01-01T12:00:00.000Z\",\"model\":\"claude-3-5-haiku-20241022\",\"inputTokens\":100,\"outputTokens\":50,\"cacheCreationTokens\":0,\"cacheReadTokens\":0,\"totalTokens\":150,\"inputCost\":0.5,\"outputCost\":1,\"cacheCreationCost\":0,\"cacheReadCost\":0,\"totalCost\":1.5,\"duration\":1200,\"statusCode\":200}''"

definition sample_record :: usage_record where
  "sample_record =
     \<lparr>r_model = ''claude-3-5-haiku-20241022'', r_timestamp = ''2025-01-01T12:00:00.000Z'',
      r_totalTokens = 150, r_inputTokens = 100, r_outputTokens = 50, r_cacheCreationTokens = 0,
      r_cacheReadTokens = 0, r_totalCost = 3 / 2, r_inputCost = 1 / 2, r_outputCost = 1,
      r_cacheCreationCost = 0, r_cacheReadCost = 0, r_duration = 1200, r_statusCode = 200\<rparr>"

definition partial_line :: string where
  "partial_line = ''{\"requestId\":\"r2\",\"tenantId\":\"t1\",\"timest''"

definition parse_sample :: "string \<Rightarrow> usage_record option" where
  "parse_sample line = (if trim line = sample_line then Some sample_record else None)"

definition noon :: "string \<Rightarrow> int" where
  "noon timestamp = 12"

definition two_records_file :: string where
  "two_records_file = sample_line @ [CHR 0x0A, CHR 0x0A, CHR '' '', CHR 0x0A] @ sample_line @ [CHR 0x0A]"

definition corrupt_file :: string where
  "corrupt_file = sample_line @ [CHR 0x0A] @ partial_line"

section \<open>JSON values and the JavaScript library\<close>

text \<open>A value as \<open>JSON.parse\<close> returns it; an object is the list of its members in order.\<close>

datatype json =
  JNull | JBool bool | JNum rat | JStr string | JArr "json list" | JObj "(string \<times> json) list"

text \<open>
  The library functions and the ambient values that the code calls: parameters of the
  model. \<open>JSON_parse\<close> is \<open>None\<close> when \<open>JSON.parse\<close> throws; \<open>String_of\<close> is the
  conversion to a string that \<open>Array.prototype.join\<close> and \<open>+\<close> apply; \<open>toISOString_now\<close>
  and \<open>now_seconds\<close> are the clock, \<open>generateId\<close> the random identifier of the format
  converter.
\<close>

record js_env =
  JSON_parse :: "string \<Rightarrow> json option"
  JSON_stringify :: "json \<Rightarrow> string"
  String_of :: "json \<Rightarrow> string"
  byteLength :: "string \<Rightarrow> nat"
  toISOString_now :: string
  now_seconds :: rat
  generateId :: string

text \<open>
  Reading the property \<open>k\<close> of a value that is not \<open>null\<close>: \<open>None\<close> is \<open>undefined\<close>.
  Of a repeated member \<open>JSON.parse\<close> keeps the last. The names read in this program are
  not properties of strings, numbers, booleans or arrays.
\<close>

definition get_prop :: "json \<Rightarrow> string \<Rightarrow> json option" where
  "get_prop v k = (case v of JObj members \<Rightarrow> map_of (rev members) k | _ \<Rightarrow> None)"

text \<open>Truthiness of a value, \<open>None\<close> being \<open>undefined\<close>.\<close>

definition truthy :: "json option \<Rightarrow> bool" where
  "truthy v =
     (case v of
        None \<Rightarrow> False
      | Some JNull \<Rightarrow> False
      | Some (JBool b) \<Rightarrow> b
      | Some (JNum n) \<Rightarrow> n \<noteq> 0
      | Some (JStr s) \<Rightarrow> s \<noteq> []
      | Some (JArr xs) \<Rightarrow> True
      | Some (JObj members) \<Rightarrow> True)"

text \<open>\<open>v || d\<close>.\<close>

definition or_else :: "json option \<Rightarrow> json \<Rightarrow> json" where
  "or_else v d = (case v of None \<Rightarrow> d | Some x \<Rightarrow> if truthy (Some x) then x else d)"

text \<open>
  \<open>v || 0\<close> for a token counter, as a number. Counters are JSON numbers; a truthy value
  of another type would go through JavaScript's conversions in later arithmetic, which
  the model does not follow: it reads 0.
\<close>

definition num_or_0 :: "json option \<Rightarrow> rat" where
  "num_or_0 v = (case v of Some (JNum n) \<Rightarrow> n | _ \<Rightarrow> 0)"

text \<open>\<open>String.prototype.startsWith\<close> and \<open>includes\<close>.\<close>

definition startsWith :: "string \<Rightarrow> string \<Rightarrow> bool" where
  "startsWith s p = (take (length p) s = p)"

fun includes_str :: "string \<Rightarrow> string \<Rightarrow> bool" where
  "includes_str [] sub = (sub = [])"
| "includes_str (c # cs) sub = (startsWith (c # cs) sub \<or> includes_str cs sub)"

subsection \<open>Token usage of a body (src/utils/helpers.js)\<close>

definition usage_of_json :: "json \<Rightarrow> token_usage" where
  "usage_of_json usage =
     \<lparr>inputTokens = num_or_0 (get_prop usage ''input_tokens''),
      outputTokens = num_or_0 (get_prop usage ''output_tokens''),
      cacheCreationTokens = num_or_0 (get_prop usage ''cache_creation_input_tokens''),
      cacheReadTokens = num_or_0 (get_prop usage ''cache_read_input_tokens'')\<rparr>"

text \<open>\<open>parseSSEUsageData\<close>; a thrown error is caught and gives \<open>null\<close>.\<close>

definition parseSSEUsageData :: "js_env \<Rightarrow> string \<Rightarrow> string \<Rightarrow> token_usage option" where
  "parseSSEUsageData env eventType eventData =
     (if eventType = ''message_start'' then
        (case JSON_parse env eventData of
           None \<Rightarrow> None
         | Some JNull \<Rightarrow> None
         | Some messageStart \<Rightarrow>
             (case get_prop messageStart ''message'' of
                None \<Rightarrow> None
              | Some JNull \<Rightarrow> None
              | Some message \<Rightarrow>
                  (case get_prop message ''usage'' of
                     None \<Rightarrow> None
                   | Some usage \<Rightarrow> if truthy (Some usage) then Some (usage_of_json usage) else None)))
      else if eventType = ''message_delta'' then
        (case JSON_parse env eventData of
           None \<Rightarrow> None
         | Some JNull \<Rightarrow> None
         | Some messageDelta \<Rightarrow>
             (case get_prop messageDelta ''usage'' of
                None \<Rightarrow> None
              | Some usage \<Rightarrow> if truthy (Some usage) then Some (usage_of_json usage) else None))
      else None)"

definition zero_usage :: token_usage where
  "zero_usage = \<lparr>inputTokens = 0, outputTokens = 0, cacheCreationTokens = 0, cacheReadTokens = 0\<rparr>"

text \<open>
  The loop over the lines of a stream of server-sent events: the state is
  \<open>totalUsage\<close>, \<open>currentEvent\<close> (\<open>None\<close> is \<open>null\<close>) and \<open>eventData\<close>.
\<close>

fun sse_loop ::
  "js_env \<Rightarrow> string list \<Rightarrow> token_usage \<Rightarrow> string option \<Rightarrow> string
     \<Rightarrow> token_usage \<times> string option \<times> string" where
  "sse_loop env [] totalUsage currentEvent eventData = (totalUsage, currentEvent, eventData)"
| "sse_loop env (line # lines) totalUsage currentEvent eventData =
     (let trimmedLine = trim line
      in if startsWith trimmedLine ''event: '' then
           (let totalUsage' =
                  (case currentEvent of
                     None \<Rightarrow> totalUsage
                   | Some ev \<Rightarrow>
                       if ev = [] \<or> eventData = [] then totalUsage
                       else (case parseSSEUsageData env ev eventData of
                               None \<Rightarrow> totalUsage
                             | Some usage \<Rightarrow>
                                 if ev = ''message_start'' \<or> ev = ''message_delta'' then usage
                                 else totalUsage))
            in sse_loop env lines totalUsage' (Some (drop 7 trimmedLine)) [])
         else if startsWith trimmedLine ''data: '' then
           sse_loop env lines totalUsage currentEvent (drop 6 trimmedLine)
         else sse_loop env lines totalUsage currentEvent eventData)"

text \<open>\<open>extractTokenUsage\<close>: \<open>None\<close> is \<open>null\<close>.\<close>

definition extractTokenUsage :: "js_env \<Rightarrow> string \<Rightarrow> token_usage option" where
  "extractTokenUsage env responseBody =
     (let parsed = JSON_parse env responseBody;
          usage = (case parsed of None \<Rightarrow> None | Some JNull \<Rightarrow> None | Some p \<Rightarrow> get_prop p ''usage'')
      in if truthy usage then
           (case usage of None \<Rightarrow> None | Some u \<Rightarrow> Some (usage_of_json u))
         else if includes_str responseBody ''event: message_start''
                 \<or> includes_str responseBody ''event: message_delta'' then
           (case sse_loop env (split_newline responseBody) zero_usage None [] of
              (totalUsage, currentEvent, eventData) \<Rightarrow>
                (let totalUsage' =
                       (case currentEvent of
                          None \<Rightarrow> totalUsage
                        | Some ev \<Rightarrow>
                            if ev = [] \<or> eventData = [] then totalUsage
                            else (case parseSSEUsageData env ev eventData of
                                    None \<Rightarrow> totalUsage
                                  | Some usage \<Rightarrow> usage))
                 in if inputTokens totalUsage' > 0 \<or> outputTokens totalUsage' > 0
                       \<or> cacheCreationTokens totalUsage' > 0 \<or> cacheReadTokens totalUsage' > 0
                    then Some totalUsage' else None))
         else None)"

text \<open>
  \<open>extractModelFromBody\<close>, and the model that \<open>authenticate\<close> extracts: the member
  \<open>model\<close> of the parsed body. The model is a JSON string; a truthy value of another type
  is read as no model.
\<close>

definition extractModelFromBody :: "js_env \<Rightarrow> string \<Rightarrow> string option" where
  "extractModelFromBody env body =
     (case JSON_parse env body of
        None \<Rightarrow> None
      | Some JNull \<Rightarrow> None
      | Some parsed \<Rightarrow>
          (case get_prop parsed ''model'' of
             Some (JStr m) \<Rightarrow> if m = [] then None else Some m
           | _ \<Rightarrow> None))"

section \<open>Authentication (the AuthMiddleware class)\<close>

text \<open>
  A request as the proxy core reads it. \<open>req_token\<close> is the token that
  \<open>extractAuthInfo\<close> finds in the headers or in the query, \<open>None\<close> when there is none.
\<close>

record request =
  req_url :: string
  req_token :: "string option"
  req_requestId :: string
  req_userAgent :: "string option"
  req_clientIP :: string

datatype auth_result =
  AuthFailure string int             \<comment> \<open>error, status code\<close>
| SkipAuth
| AuthSuccess tenant "string option" \<comment> \<open>tenant, model\<close>

definition getTenantByKey :: "tenant list \<Rightarrow> string \<Rightarrow> tenant option" where
  "getTenantByKey tenants key = find (\<lambda>t. tn_key t = key) tenants"

definition authenticate :: "js_env \<Rightarrow> tenant list \<Rightarrow> request \<Rightarrow> string \<Rightarrow> auth_result" where
  "authenticate env tenants req requestBody =
     (if req_url req = ''/health'' \<or> startsWith (req_url req) ''/admin'' then SkipAuth
      else case req_token req of
             None \<Rightarrow> AuthFailure ''missing_auth'' 401
           | Some token \<Rightarrow>
               (case getTenantByKey tenants token of
                  None \<Rightarrow> AuthFailure ''invalid_key'' 401
                | Some tenant \<Rightarrow>
                    if \<not> tn_enabled tenant then AuthFailure ''tenant_disabled'' 403
                    else (let model = (if requestBody = [] then None
                                       else extractModelFromBody env requestBody)
                          in case model of
                               None \<Rightarrow> AuthSuccess tenant None
                             | Some m \<Rightarrow>
                                 (case findMatchingPattern (tn_allowedModels tenant) m of
                                    None \<Rightarrow> AuthFailure ''model_not_allowed'' 403
                                  | Some pattern \<Rightarrow> AuthSuccess tenant (Some m)))))"

section \<open>Format converter (src/utils/formatConverter.js)\<close>

text \<open>An element of \<open>Array.prototype.join\<close>: \<open>undefined\<close> and \<open>null\<close> give the empty string.\<close>

definition join_text :: "js_env \<Rightarrow> json option \<Rightarrow> string" where
  "join_text env v =
     (case v of None \<Rightarrow> [] | Some JNull \<Rightarrow> [] | Some (JStr s) \<Rightarrow> s | Some x \<Rightarrow> String_of env x)"

text \<open>
  \<open>a + b\<close> on two values that are not \<open>undefined\<close>: concatenation when one of them is a
  string, an array or an object, the sum of the numbers otherwise.
\<close>

definition js_plus :: "js_env \<Rightarrow> json \<Rightarrow> json \<Rightarrow> json" where
  "js_plus env a b =
     (let stringish = (\<lambda>v. case v of JStr s \<Rightarrow> True | JArr xs \<Rightarrow> True | JObj ms \<Rightarrow> True | _ \<Rightarrow> False);
          to_number = (\<lambda>v. case v of JNum x \<Rightarrow> x | JBool c \<Rightarrow> (if c then 1 else 0) | _ \<Rightarrow> 0)
      in if stringish a \<or> stringish b then JStr (String_of env a @ String_of env b)
         else JNum (to_number a + to_number b))"

datatype conversion_error = ConversionError

text \<open>
  \<open>convertNonStreamingResponse\<close> on a string. \<open>JSON.parse\<close> may throw, and so does a
  property read on \<open>null\<close> (the response itself, or an element of \<open>content\<close>); the catch
  block throws an Error in turn, which is \<open>Inl\<close>.
\<close>

definition convertNonStreamingResponse :: "js_env \<Rightarrow> string \<Rightarrow> conversion_error + json" where
  "convertNonStreamingResponse env claudeResponse =
     (case JSON_parse env claudeResponse of
        None \<Rightarrow> Inl ConversionError
      | Some JNull \<Rightarrow> Inl ConversionError
      | Some response \<Rightarrow>
          (let fields =
                 [(''id'', JStr (generateId env)),
                  (''object'', JStr ''chat.completion''),
                  (''created'', JNum (now_seconds env)),
                  (''model'', or_else (get_prop response ''model'') (JStr ''gpt-4''))];
               usage =
                 (case get_prop response ''usage'' of
                    None \<Rightarrow> []
                  | Some u \<Rightarrow>
                      if truthy (Some u) then
                        [(''usage'',
                          JObj [(''prompt_tokens'', or_else (get_prop u ''input_tokens'') (JNum 0)),
                                (''completion_tokens'', or_else (get_prop u ''output_tokens'') (JNum 0)),
                                (''total_tokens'',
                                   js_plus env (or_else (get_prop u ''input_tokens'') (JNum 0))
                                               (or_else (get_prop u ''output_tokens'') (JNum 0)))])]
                      else [])
           in case get_prop response ''content'' of
                Some (JArr items) \<Rightarrow>
                  if JNull \<in> set items then Inl ConversionError
                  else
                    (let textContent =
                           concat (map (\<lambda>item. join_text env (get_prop item ''text''))
                                    (filter (\<lambda>item. get_prop item ''type'' = Some (JStr ''text'')) items));
                         choice =
                           JObj [(''index'', JNum 0),
                                 (''message'', JObj [(''role'', JStr ''assistant''),
                                                    (''content'', JStr textContent)]),
                                 (''finish_reason'',
                                    JStr (if get_prop response ''stop_reason'' = Some (JStr ''end_turn'')
                                          then ''stop'' else ''length''))]
                     in Inr (JObj (fields @ [(''choices'', JArr [choice])] @ usage)))
              | _ \<Rightarrow> Inr (JObj (fields @ [(''choices'', JArr [])] @ usage))))"

text \<open>\<open>convertClaudeToOpenAI(responseData, false)\<close>.\<close>

definition convertClaudeToOpenAI :: "js_env \<Rightarrow> string \<Rightarrow> conversion_error + json" where
  "convertClaudeToOpenAI env claudeResponse = convertNonStreamingResponse env claudeResponse"

text \<open>
  \<open>convertErrorResponse\<close>, for an error with the given message and type and no code.
  (The messages of the source are Chinese text; the model writes them in English.)
\<close>

definition convertErrorResponse :: "string \<Rightarrow> string \<Rightarrow> string \<Rightarrow> json" where
  "convertErrorResponse message etype requestId =
     JObj ([(''error'',
             JObj [(''message'', JStr (if message = [] then ''unknown error'' else message)),
                   (''type'', JStr (if etype = [] then ''invalid_request_error'' else etype)),
                   (''code'', JNull)])]
           @ (if requestId = [] then [] else [(''requestId'', JStr requestId)]))"

section \<open>The response object\<close>

text \<open>
  What has reached the client through Node's \<open>ServerResponse\<close>: the calls of
  \<open>writeHead\<close> (status code and headers), the chunks of the body, and whether \<open>end\<close>
  was called. \<open>headersSent\<close> is true once \<open>writeHead\<close> was called.
\<close>

datatype header_value = HStr string | HNum nat

type_synonym headers = "(string \<times> header_value) list"

record server_response =
  heads :: "(int \<times> headers) list"
  written :: "string list"
  finished :: bool

definition new_response :: server_response where
  "new_response = \<lparr>heads = [], written = [], finished = False\<rparr>"

text \<open>
  The response object that the proxy core writes to: the client's response itself, or,
  on the non-streaming OpenAI path, the same object with \<open>writeHead\<close>, \<open>write\<close> and
  \<open>end\<close> replaced by the functions of \<open>handleNonStreamingRequest\<close>, which hold the
  request id and the collected \<open>responseData\<close>.
\<close>

datatype sink =
  Direct server_response
| NonStreaming server_response string string

definition client_response :: "sink \<Rightarrow> server_response" where
  "client_response s = (case s of Direct r \<Rightarrow> r | NonStreaming r requestId responseData \<Rightarrow> r)"

definition res_writeHead :: "int \<Rightarrow> headers \<Rightarrow> server_response \<Rightarrow> server_response" where
  "res_writeHead statusCode hs r = r\<lparr>heads := heads r @ [(statusCode, hs)]\<rparr>"

definition res_write :: "string \<Rightarrow> server_response \<Rightarrow> server_response" where
  "res_write chunk r = r\<lparr>written := written r @ [chunk]\<rparr>"

definition res_end :: "string option \<Rightarrow> server_response \<Rightarrow> server_response" where
  "res_end data r =
     (case data of
        None \<Rightarrow> r\<lparr>finished := True\<rparr>
      | Some d \<Rightarrow> if d = [] then r\<lparr>finished := True\<rparr>
                  else r\<lparr>written := written r @ [d], finished := True\<rparr>)"

definition headersSent :: "sink \<Rightarrow> bool" where
  "headersSent s = (heads (client_response s) \<noteq> [])"

definition writeHead :: "int \<Rightarrow> headers \<Rightarrow> sink \<Rightarrow> sink" where
  "writeHead statusCode hs s =
     (case s of
        Direct r \<Rightarrow> Direct (res_writeHead statusCode hs r)
      | NonStreaming r requestId responseData \<Rightarrow> NonStreaming r requestId responseData)"

definition write_chunk :: "string \<Rightarrow> sink \<Rightarrow> sink" where
  "write_chunk chunk s =
     (case s of
        Direct r \<Rightarrow> Direct (res_write chunk r)
      | NonStreaming r requestId responseData \<Rightarrow> NonStreaming r requestId (responseData @ chunk))"

text \<open>
  \<open>end\<close>. The replaced function converts the collected data, restores the three methods
  and answers on the client's response: 200 with the converted body, or 500 when the
  conversion throws.
\<close>

definition end_response :: "js_env \<Rightarrow> string option \<Rightarrow> sink \<Rightarrow> sink" where
  "end_response env data s =
     (case s of
        Direct r \<Rightarrow> Direct (res_end data r)
      | NonStreaming r requestId responseData0 \<Rightarrow>
          (let responseData = responseData0 @ (case data of None \<Rightarrow> [] | Some d \<Rightarrow> d)
           in case convertClaudeToOpenAI env responseData of
                Inr openaiResponse \<Rightarrow>
                  (let responseBody = JSON_stringify env openaiResponse
                   in Direct (res_end (Some responseBody)
                        (res_writeHead 200
                           [(''Content-Type'', HStr ''application/json''),
                            (''Content-Length'', HNum (byteLength env responseBody))] r)))
              | Inl e \<Rightarrow>
                  (let errorBody = JSON_stringify env
                         (convertErrorResponse ''response format conversion failed''
                            ''internal_error'' requestId)
                   in Direct (res_end (Some errorBody)
                        (res_writeHead 500
                           [(''Content-Type'', HStr ''application/json''),
                            (''Content-Length'', HNum (byteLength env errorBody))] r)))))"

section \<open>Proxy core (src/core/proxy.js)\<close>

text \<open>\<open>Helpers.createErrorResponse\<close>.\<close>

definition createErrorResponse :: "js_env \<Rightarrow> string \<Rightarrow> string \<Rightarrow> string \<Rightarrow> json" where
  "createErrorResponse env error message requestId =
     JObj [(''error'',
            JObj [(''type'', JStr error), (''message'', JStr message),
                  (''requestId'', JStr requestId), (''timestamp'', JStr (toISOString_now env))])]"

text \<open>
  \<open>sendErrorResponse\<close> with \<open>generateErrorResponse\<close> of the authentication middleware:
  the status code of the failure, a \<open>WWW-Authenticate\<close> header on 401, and a JSON body
  with the error type, to which the request id is added.
\<close>

definition sendErrorResponse :: "js_env \<Rightarrow> string \<Rightarrow> string \<Rightarrow> int \<Rightarrow> string \<Rightarrow> sink \<Rightarrow> sink" where
  "sendErrorResponse env error message statusCode requestId res =
     (let body = JObj ([(''error'',
                         JObj [(''type'', JStr error), (''message'', JStr message),
                               (''timestamp'', JStr (toISOString_now env))])]
                       @ (if requestId = [] then [] else [(''requestId'', JStr requestId)]));
          hs = [(''Content-Type'', HStr ''application/json'')]
               @ (if statusCode = 401
                  then [(''WWW-Authenticate'', HStr ''Bearer realm=\"CCGate API\", charset=\"UTF-8\"'')]
                  else [])
      in end_response env (Some (JSON_stringify env body)) (writeHead statusCode hs res))"

text \<open>
  \<open>handleSpecialRoutes\<close>. (The member \<open>upstreams\<close> of the health body, the statistics of
  the balancer, is left out.)
\<close>

definition handleSpecialRoutes :: "js_env \<Rightarrow> request \<Rightarrow> string \<Rightarrow> sink \<Rightarrow> sink" where
  "handleSpecialRoutes env req requestId res =
     (if req_url req = ''/health'' then
        end_response env
          (Some (JSON_stringify env
                   (JObj [(''status'', JStr ''ok''), (''timestamp'', JStr (toISOString_now env)),
                          (''requestId'', JStr requestId)])))
          (writeHead 200 [(''Content-Type'', HStr ''application/json'')] res)
      else
        end_response env
          (Some (JSON_stringify env
                   (JObj [(''error'', JStr ''not_found''), (''message'', JStr ''path not found''),
                          (''requestId'', JStr requestId)])))
          (writeHead 404 [(''Content-Type'', HStr ''application/json'')] res))"

subsection \<open>\<open>proxyRequest\<close>\<close>

text \<open>
  What the upstream request does after it is sent, in the order in which Node delivers
  it to the handlers: the response callback, the \<open>data\<close> and \<open>end\<close> events of
  the upstream response, the \<open>error\<close> event of the request, and the timeout callback
  (which logs and destroys the request; the destroyed request then emits its own events).
\<close>

datatype upstream_event =
  Response int headers
| Data string
| End
| Error string
| Timeout

text \<open>What \<open>recordUsage\<close> hands to the usage service.\<close>

record usage_entry =
  ue_requestId :: string
  ue_tenantId :: string
  ue_model :: string
  ue_tokens :: token_usage
  ue_statusCode :: int
  ue_upstream :: string

text \<open>What \<open>proxyRequest\<close> is called with.\<close>

record proxy_context =
  ctx_requestId :: string
  ctx_tenant :: "tenant option"
  ctx_model :: "string option"
  ctx_requestBody :: string
  ctx_upstream :: upstream

text \<open>
  The variables of one call of \<open>proxyRequest\<close>: the response object, \<open>responseBody\<close>,
  the status code of the upstream response once the response callback has run (the
  \<open>data\<close> and \<open>end\<close> handlers exist from then on), whether the promise is resolved,
  and the usage recorded.
\<close>

record proxy_run =
  run_res :: sink
  run_responseBody :: string
  run_statusCode :: "int option"
  run_resolved :: bool
  run_recorded :: "usage_entry list"

definition recordUsage :: "js_env \<Rightarrow> proxy_context \<Rightarrow> tenant \<Rightarrow> string \<Rightarrow> int \<Rightarrow> usage_entry" where
  "recordUsage env ctx tenant responseBody statusCode =
     (let model = (case ctx_model ctx of
                     Some m \<Rightarrow> Some m
                   | None \<Rightarrow> extractModelFromBody env (ctx_requestBody ctx));
          tokenUsage = (case extractTokenUsage env responseBody of None \<Rightarrow> zero_usage | Some u \<Rightarrow> u)
      in \<lparr>ue_requestId = ctx_requestId ctx, ue_tenantId = tn_id tenant,
          ue_model = (case model of None \<Rightarrow> ''unknown'' | Some m \<Rightarrow> m),
          ue_tokens = tokenUsage, ue_statusCode = statusCode,
          ue_upstream = up_id (ctx_upstream ctx)\<rparr>)"

definition on_event :: "js_env \<Rightarrow> proxy_context \<Rightarrow> proxy_run \<Rightarrow> upstream_event \<Rightarrow> proxy_run" where
  "on_event env ctx run ev =
     (case ev of
        Response statusCode hs \<Rightarrow>
          run\<lparr>run_res := writeHead statusCode hs (run_res run), run_statusCode := Some statusCode\<rparr>
      | Data chunk \<Rightarrow>
          (case run_statusCode run of
             None \<Rightarrow> run
           | Some statusCode \<Rightarrow>
               run\<lparr>run_responseBody := run_responseBody run @ chunk,
                   run_res := write_chunk chunk (run_res run)\<rparr>)
      | End \<Rightarrow>
          (case run_statusCode run of
             None \<Rightarrow> run
           | Some statusCode \<Rightarrow>
               run\<lparr>run_res := end_response env None (run_res run),
                   run_recorded :=
                     (case ctx_tenant ctx of
                        None \<Rightarrow> run_recorded run
                      | Some tenant \<Rightarrow>
                          run_recorded run
                            @ [recordUsage env ctx tenant (run_responseBody run) statusCode]),
                   run_resolved := True\<rparr>)
      | Error message \<Rightarrow>
          (if \<not> headersSent (run_res run) then
             run\<lparr>run_res :=
                   end_response env
                     (Some (JSON_stringify env
                              (createErrorResponse env ''upstream_error''
                                 (''upstream server error: '' @ message) (ctx_requestId ctx))))
                     (writeHead 502 [(''Content-Type'', HStr ''application/json'')] (run_res run)),
                 run_resolved := True\<rparr>
           else run\<lparr>run_resolved := True\<rparr>)
      | Timeout \<Rightarrow> run)"

text \<open>
  \<open>proxyRequest\<close>. \<open>setup_ok\<close> tells whether the synchronous part (the rewriting of the
  url, the options and headers of the upstream request) ran without throwing; when it
  throws, the catch block logs and resolves.
\<close>

definition proxyRequest ::
  "js_env \<Rightarrow> proxy_context \<Rightarrow> bool \<Rightarrow> upstream_event list \<Rightarrow> sink \<Rightarrow> proxy_run" where
  "proxyRequest env ctx setup_ok events res =
     (let run0 = \<lparr>run_res = res, run_responseBody = [], run_statusCode = None,
                  run_resolved = False, run_recorded = []\<rparr>
      in if setup_ok then foldl (on_event env ctx) run0 events
         else run0\<lparr>run_resolved := True\<rparr>)"

subsection \<open>\<open>handleRequest\<close>\<close>

text \<open>What the proxy core is constructed with, as far as a request uses it.\<close>

record proxy_deps =
  dep_tenants :: "tenant list"
  dep_pricing :: "(string \<times> model_pricing) list"
  dep_todayUsage :: "string \<Rightarrow> usage_error + aggregation"
  dep_upstreamsConfig :: upstreams_config

text \<open>
  \<open>handleRequest\<close>. \<open>requestId\<close> is the identifier that \<open>generateRequestId\<close> draws,
  \<open>requestBody\<close> what \<open>collectRequestBody\<close> resolves to, \<open>r\<close> the value of
  \<open>Math.random()\<close> for the balancer. The result is the run of the proxied request, or the
  response object after an error or special response, and the balancer.
\<close>

definition finished_run :: "sink \<Rightarrow> proxy_run" where
  "finished_run res =
     \<lparr>run_res = res, run_responseBody = [], run_statusCode = None,
      run_resolved = True, run_recorded = []\<rparr>"

definition handleRequest ::
  "js_env \<Rightarrow> proxy_deps \<Rightarrow> request \<Rightarrow> string \<Rightarrow> string \<Rightarrow> rat \<Rightarrow> bool \<Rightarrow> upstream_event list
     \<Rightarrow> sink \<Rightarrow> lb_state \<Rightarrow> proxy_run \<times> lb_state" where
  "handleRequest env deps req requestId requestBody r setup_ok events res lb =
     (case authenticate env (dep_tenants deps) req requestBody of
        AuthFailure error statusCode \<Rightarrow>
          (finished_run (sendErrorResponse env error ''authentication failed'' statusCode requestId res), lb)
      | SkipAuth \<Rightarrow> (finished_run (handleSpecialRoutes env req requestId res), lb)
      | AuthSuccess tenant model \<Rightarrow>
          (let limitCheck =
                 (case model of
                    None \<Rightarrow> Inr NoLimit
                  | Some m \<Rightarrow>
                      (case extractTokenUsage env requestBody of
                         None \<Rightarrow> Inr NoLimit
                       | Some usage \<Rightarrow>
                           checkLimitsExceeded (dep_tenants deps) (dep_pricing deps) (dep_todayUsage deps)
                             (tn_id tenant) m usage))
           in case limitCheck of
                Inl e \<Rightarrow>
                  (finished_run (sendErrorResponse env ''internal_error'' ''internal server error''
                                   500 requestId res), lb)
              | Inr check \<Rightarrow>
                  if exceeded check then
                    (finished_run (sendErrorResponse env ''limit_exceeded'' ''daily limit exceeded''
                                     429 requestId res), lb)
                  else
                    (case selectUpstream (dep_upstreamsConfig deps) r lb of
                       Inl e \<Rightarrow>
                         (finished_run (sendErrorResponse env ''internal_error''
                                          ''internal server error'' 500 requestId res), lb)
                     | Inr (upstream, lb') \<Rightarrow>
                         (proxyRequest env
                            \<lparr>ctx_requestId = requestId, ctx_tenant = Some tenant, ctx_model = model,
                             ctx_requestBody = requestBody, ctx_upstream = upstream\<rparr>
                            setup_ok events res, lb'))))"

section \<open>OpenAI compatibility layer (the class OpenAICompatLayer in src/core/proxy.js)\<close>

text \<open>
  \<open>handleNonStreamingRequest\<close>: the url becomes that of the Anthropic messages endpoint,
  the user agent is replaced, the three methods of the response are replaced, and the
  proxy core handles the request. \<open>requestId\<close> is the id of the compatibility layer,
  \<open>coreRequestId\<close> the one that the proxy core draws, \<open>requestBody\<close> what the core's
  \<open>collectRequestBody\<close> resolves to.
\<close>

definition handleNonStreamingRequest ::
  "js_env \<Rightarrow> proxy_deps \<Rightarrow> request \<Rightarrow> string \<Rightarrow> string \<Rightarrow> string \<Rightarrow> rat \<Rightarrow> bool
     \<Rightarrow> upstream_event list \<Rightarrow> server_response \<Rightarrow> lb_state \<Rightarrow> proxy_run \<times> lb_state" where
  "handleNonStreamingRequest env deps req requestId coreRequestId requestBody r setup_ok events res lb =
     handleRequest env deps
       (req\<lparr>req_url := ''/anthropic/v1/messages'',
            req_userAgent := Some ''CCGate-OpenAI-Compat/1.0 (compatible; NextChat)''\<rparr>)
       coreRequestId requestBody r setup_ok events (NonStreaming res requestId []) lb"

subsection \<open>Notions used to state the properties of the proxy\<close>

definition is_response :: "upstream_event \<Rightarrow> bool" where
  "is_response e = (case e of Response s h \<Rightarrow> True | _ \<Rightarrow> False)"

definition is_error :: "upstream_event \<Rightarrow> bool" where
  "is_error e = (case e of Error m \<Rightarrow> True | _ \<Rightarrow> False)"

text \<open>
  The order in which Node delivers the events of one upstream request: the response
  callback runs at most once, and not after the request has emitted an error.
\<close>

fun wf_events :: "upstream_event list \<Rightarrow> bool" where
  "wf_events [] = True"
| "wf_events (e # es) =
     (if is_response e \<or> is_error e then list_all (\<lambda>x. \<not> is_response x) es else wf_events es)"

definition head_count :: "proxy_run \<Rightarrow> nat" where
  "head_count run = length (heads (client_response (run_res run)))"

definition is_direct :: "sink \<Rightarrow> bool" where
  "is_direct s = (case s of Direct r \<Rightarrow> True | _ \<Rightarrow> False)"

text \<open>Bodies, a library, a tenant and a request for the examples.\<close>

definition example_request_body :: string where
  "example_request_body =
     ''{\"model\":\"claude-3-5-haiku-20241022\",\"max_tokens\":16,\"messages\":[{\"role\":\"user\",\"content\":\"hi\"}]}''"

definition example_request_json :: json where
  "example_request_json =
     JObj [(''model'', JStr ''claude-3-5-haiku-20241022''), (''max_tokens'', JNum 16),
           (''messages'', JArr [JObj [(''role'', JStr ''user''), (''content'', JStr ''hi'')]])]"

definition example_response_body :: string where
  "example_response_body =
     ''{\"id\":\"msg_1\",\"type\":\"message\",\"model\":\"claude-3-5-haiku-20241022\",\"content\":[{\"type\":\"text\",\"text\":\"Hello\"}],\"stop_reason\":\"end_turn\",\"usage\":{\"input_tokens\":9,\"output_tokens\":3}}''"

definition example_response_json :: json where
  "example_response_json =
     JObj [(''id'', JStr ''msg_1''), (''type'', JStr ''message''),
           (''model'', JStr ''claude-3-5-haiku-20241022''),
           (''content'', JArr [JObj [(''type'', JStr ''text''), (''text'', JStr ''Hello'')]]),
           (''stop_reason'', JStr ''end_turn''),
           (''usage'', JObj [(''input_tokens'', JNum 9), (''output_tokens'', JNum 3)])]"

definition example_error_body :: string where
  "example_error_body =
     ''{\"type\":\"error\",\"error\":{\"type\":\"authentication_error\",\"message\":\"invalid x-api-key\"}}''"

definition example_error_json :: json where
  "example_error_json =
     JObj [(''type'', JStr ''error''),
           (''error'', JObj [(''type'', JStr ''authentication_error''),
                            (''message'', JStr ''invalid x-api-key'')])]"

text \<open>
  \<open>JSON.parse\<close> on the bodies of the examples (it rejects every other string); the
  other functions are not needed to evaluate the examples and are constant.
\<close>

definition example_env :: js_env where
  "example_env =
     \<lparr>JSON_parse = (\<lambda>s. if s = example_request_body then Some example_request_json
                         else if s = example_response_body then Some example_response_json
                         else if s = example_error_body then Some example_error_json
                         else None),
      JSON_stringify = (\<lambda>j. ''{}''),
      String_of = (\<lambda>j. ''''),
      byteLength = length,
      toISOString_now = ''2025-01-01T12:00:00.000Z'',
      now_seconds = 1735732800,
      generateId = ''chatcmpl-example''\<rparr>"

definition example_tenant :: tenant where
  "example_tenant =
     \<lparr>tn_id = ''t1'', tn_name = ''Tenant 1'', tn_key = ''sk-tenant-1'', tn_enabled = True,
      tn_allowedModels = [''*''], tn_maxUSD = Some 100\<rparr>"

definition example_request :: request where
  "example_request =
     \<lparr>req_url = ''/anthropic/v1/messages'', req_token = Some ''sk-tenant-1'',
      req_requestId = ''req-1'', req_userAgent = None, req_clientIP = ''127.0.0.1''\<rparr>"

definition example_context :: proxy_context where
  "example_context =
     \<lparr>ctx_requestId = ''req-1'', ctx_tenant = Some example_tenant,
      ctx_model = Some ''claude-3-5-haiku-20241022'', ctx_requestBody = example_request_body,
      ctx_upstream = upstream_A\<rparr>"

text \<open>A day on which the tenant has already spent 150 dollars, against a cap of 100.\<close>

definition spent_150 :: aggregation where
  "spent_150 = getEmptyUsageAggregation\<lparr>totalRequests := 1, agg_totalCost := 150\<rparr>"

definition example_deps :: proxy_deps where
  "example_deps =
     \<lparr>dep_tenants = [example_tenant], dep_pricing = example_pricing,
      dep_todayUsage = (\<lambda>tenantId. Inr spent_150),
      dep_upstreamsConfig = example_config [upstream_A, upstream_B] ''weighted_round_robin'' False False\<rparr>"

section \<open>Properties of the load balancer\<close>

subsection \<open>Auxiliary facts about the weighted scan\<close>



































lemmas lb_fixture_defs = upstream_A_def upstream_B_def upstream_Z_def upstream_D_def
  example_upstream_def example_config_def new_LoadBalancer_def startHealthCheck_def
  updateUpstreams_def

lemmas lb_run_defs = performHealthCheck_def checkUpstreamHealth_def updateHealthStatus_def
  isHealthy_of_def interval_def getHealthyUpstreams_def candidates_of_def selectUpstream_def
  weightedRoundRobinSelection_def totalWeight_def weight_or_100_def init_counters_def
  counter_plus_def counter_minus_def

subsection \<open>The counter map of the weighted round robin\<close>





subsection \<open>Windows of weighted round-robin selections\<close>






subsection \<open>Candidates of \<open>selectUpstream\<close>\<close>











subsection \<open>Period of the health probes\<close>

text \<open>
  Claim C6 says that the upstreams are probed every 30 seconds. On a configuration with
  health checking enabled the timer installed by \<open>startHealthCheck\<close> has a period of
  300000 milliseconds; the first round of probes has run (a status of 200 marks healthy, a
  status of 503 unhealthy), each probe being a GET of the health path.
\<close>

theorem health_probe_period_is_300_seconds:
  "healthCheckEnabled (loadBalancer (config_ABD True)) \<and>
   healthCheckInterval (new_LoadBalancer (config_ABD True) probe_only_B) = Some 300000 \<and>
   healthCheckInterval (new_LoadBalancer (config_ABD True) probe_only_B) \<noteq> Some (30 * 1000) \<and>
   healthStatus (new_LoadBalancer (config_ABD True) probe_only_B) ''a'' = Some False \<and>
   healthStatus (new_LoadBalancer (config_ABD True) probe_only_B) ''b'' = Some True \<and>
   probe_request upstream_A = (''GET'', ''/health'', 5000)"
  by (simp add: config_ABD_def lb_fixture_defs lb_run_defs probe_only_B_def probe_request_def)

section \<open>Properties of the wildcard matcher\<close>

lemma encode_Nil: "encode_pattern [] = []"
  by (simp add: encode_pattern_def)

lemma encode_Cons:
  "encode_pattern (c # cs) =
     (if c = CHR ''*'' then CHR ''.'' # CHR ''*'' # encode_pattern cs
      else if c \<in> set escaped_chars then CHR 0x5C # c # encode_pattern cs
      else c # encode_pattern cs)"
  by (simp add: encode_pattern_def escaped_chars_def)

lemma encode_head:
  "CHR ''?'' \<notin> set p \<Longrightarrow> encode_pattern p = d # rest \<Longrightarrow> d \<noteq> CHR ''*'' \<and> d \<noteq> CHR ''?''"
  by (cases p) (auto simp: encode_Nil encode_Cons split: if_splits)

lemma parse_quantifier_none:
  "s = [] \<or> (hd s \<noteq> CHR ''*'' \<and> hd s \<noteq> CHR ''?'') \<Longrightarrow> parse_quantifier s = (Once, s)"
  by (induction s rule: parse_quantifier.induct) auto

lemma parse_quantifier_encode:
  "CHR ''?'' \<notin> set p \<Longrightarrow> parse_quantifier (encode_pattern p) = (Once, encode_pattern p)"
proof (rule parse_quantifier_none)
  assume q: "CHR ''?'' \<notin> set p"
  show "encode_pattern p = [] \<or> (hd (encode_pattern p) \<noteq> CHR ''*'' \<and> hd (encode_pattern p) \<noteq> CHR ''?'')"
  proof (cases "encode_pattern p")
    case Nil
    then show ?thesis by simp
  next
    case (Cons d rest)
    then show ?thesis using encode_head[OF q Cons] by simp
  qed
qed

lemma parse_quantifier_star:
  "CHR ''?'' \<notin> set p \<Longrightarrow> parse_quantifier (CHR ''*'' # encode_pattern p) = (Star, encode_pattern p)"
proof (cases "encode_pattern p")
  case Nil
  then show ?thesis by simp
next
  case (Cons d rest)
  assume "CHR ''?'' \<notin> set p"
  from encode_head[OF this Cons] show ?thesis using Cons by simp
qed

lemma parse_terms_encode:
  "CHR ''?'' \<notin> set p \<Longrightarrow> parse_terms (encode_pattern p) = Some (map term_of p)"
proof (induction p)
  case Nil
  then show ?case by (simp add: encode_Nil)
next
  case (Cons c cs)
  then have q: "CHR ''?'' \<notin> set cs" and c: "c \<noteq> CHR ''?''" by auto
  note IH = Cons.IH[OF q]
  show ?case
  proof (cases "c = CHR ''*''")
    case True
    then show ?thesis
      using IH parse_quantifier_star[OF q] by (simp add: encode_Cons term_of_def)
  next
    case False
    show ?thesis
    proof (cases "c \<in> set escaped_chars")
      case True
      then show ?thesis
        using False IH parse_quantifier_encode[OF q] by (simp add: encode_Cons term_of_def)
    next
      case nesc: False
      then have "c \<noteq> CHR 0x5C" "c \<noteq> CHR ''.''" by (auto simp: escaped_chars_def)
      then show ?thesis
        using False nesc c IH parse_quantifier_encode[OF q] by (simp add: encode_Cons term_of_def)
    qed
  qed
qed

lemma ex_upt_le: "(\<exists>k\<in>set [0..<Suc n]. P k) = (\<exists>k. k \<le> n \<and> P k)"
proof -
  have "set [0..<Suc n] = {k. k \<le> n}" by auto
  then show ?thesis by blast
qed

lemma glob_match_star:
  "glob_match (CHR ''*'' # ps) t = (\<exists>k. k \<le> length t \<and> glob_match ps (drop k t))"
  unfolding glob_match.simps ex_upt_le by simp

lemma glob_match_lit:
  "p \<noteq> CHR ''*'' \<Longrightarrow> glob_match (p # ps) t =
     (case t of [] \<Rightarrow> False | x # xs \<Rightarrow> canonicalize x = canonicalize p \<and> glob_match ps xs)"
  unfolding glob_match.simps by simp

lemma regex_star_any:
  "\<forall>c\<in>set t. \<not> is_line_terminator c \<Longrightarrow>
     regex_test ((AnyChar, Star) # ts) t = (\<exists>k. k \<le> length t \<and> regex_test ts (drop k t))"
proof (induction t)
  case Nil
  then show ?case by simp
next
  case (Cons x xs)
  have "regex_test ((AnyChar, Star) # ts) (x # xs) =
        (regex_test ts (x # xs) \<or> (\<exists>k. k \<le> length xs \<and> regex_test ts (drop k xs)))"
    using Cons by simp
  also have "\<dots> = (\<exists>k. k \<le> length (x # xs) \<and> regex_test ts (drop k (x # xs)))"
  proof
    assume "regex_test ts (x # xs) \<or> (\<exists>k. k \<le> length xs \<and> regex_test ts (drop k xs))"
    then show "\<exists>k. k \<le> length (x # xs) \<and> regex_test ts (drop k (x # xs))"
    proof
      assume "regex_test ts (x # xs)"
      then have "0 \<le> length (x # xs) \<and> regex_test ts (drop 0 (x # xs))" by simp
      then show ?thesis by blast
    next
      assume "\<exists>k. k \<le> length xs \<and> regex_test ts (drop k xs)"
      then obtain k where "k \<le> length xs" "regex_test ts (drop k xs)" by blast
      then have "Suc k \<le> length (x # xs) \<and> regex_test ts (drop (Suc k) (x # xs))" by simp
      then show ?thesis by blast
    qed
  next
    assume "\<exists>k. k \<le> length (x # xs) \<and> regex_test ts (drop k (x # xs))"
    then obtain k where k: "k \<le> length (x # xs)" "regex_test ts (drop k (x # xs))" by blast
    show "regex_test ts (x # xs) \<or> (\<exists>k. k \<le> length xs \<and> regex_test ts (drop k xs))"
    proof (cases k)
      case 0
      then show ?thesis using k by simp
    next
      case (Suc j)
      then have "j \<le> length xs \<and> regex_test ts (drop j xs)" using k by simp
      then show ?thesis by blast
    qed
  qed
  finally show ?case .
qed

lemma term_of_lit: "c \<noteq> CHR ''*'' \<Longrightarrow> term_of c = (Lit c, Once)"
  by (simp add: term_of_def)

lemma term_of_star: "term_of (CHR ''*'') = (AnyChar, Star)"
  by (simp add: term_of_def)

lemma regex_glob:
  "\<forall>c\<in>set t. \<not> is_line_terminator c \<Longrightarrow> regex_test (map term_of p) t = glob_match p t"
proof (induction p arbitrary: t)
  case Nil
  then show ?case by simp
next
  case (Cons c cs)
  show ?case
  proof (cases "c = CHR ''*''")
    case True
    have "\<forall>k. \<forall>c\<in>set (drop k t). \<not> is_line_terminator c"
      using Cons.prems by (meson in_set_dropD)
    then have IH: "\<forall>k. regex_test (map term_of cs) (drop k t) = glob_match cs (drop k t)"
      using Cons.IH by blast
    have "regex_test (map term_of (c # cs)) t = regex_test ((AnyChar, Star) # map term_of cs) t"
      using True by (simp add: term_of_star)
    also have "\<dots> = (\<exists>k. k \<le> length t \<and> regex_test (map term_of cs) (drop k t))"
      by (rule regex_star_any[OF Cons.prems])
    also have "\<dots> = (\<exists>k. k \<le> length t \<and> glob_match cs (drop k t))"
      using IH by simp
    also have "\<dots> = glob_match (c # cs) t"
      unfolding True by (rule glob_match_star[symmetric])
    finally show ?thesis .
  next
    case False
    show ?thesis
    proof (cases t)
      case Nil
      then show ?thesis using False by (simp add: term_of_lit glob_match_lit del: glob_match.simps)
    next
      case t: (Cons x xs)
      then have "\<forall>c\<in>set xs. \<not> is_line_terminator c" using Cons.prems by simp
      then have "regex_test (map term_of cs) xs = glob_match cs xs" using Cons.IH by blast
      then show ?thesis using False t
        by (simp add: term_of_lit glob_match_lit del: glob_match.simps)
    qed
  qed
qed

lemma glob_match_refl: "glob_match p p"
proof (induction p)
  case Nil
  then show ?case by simp
next
  case (Cons c cs)
  show ?case
  proof (cases "c = CHR ''*''")
    case True
    have "Suc 0 \<le> length (c # cs) \<and> glob_match cs (drop (Suc 0) (c # cs))" using Cons by simp
    then show ?thesis unfolding True glob_match_star by blast
  next
    case False
    then show ?thesis using Cons by (simp add: glob_match_lit del: glob_match.simps)
  qed
qed

lemma glob_match_only_star: "glob_match ''*'' t"
proof -
  have "length t \<le> length t \<and> glob_match [] (drop (length t) t)" by simp
  then show ?thesis unfolding glob_match_star by blast
qed

lemma matchPattern_eq_glob:
  assumes "pattern \<noteq> []" "text \<noteq> []" "CHR ''?'' \<notin> set pattern"
    "\<forall>c\<in>set text. \<not> is_line_terminator c"
  shows "matchPattern pattern text = glob_match pattern text"
proof (cases "pattern = ''*'' \<or> pattern = text")
  case True
  then show ?thesis using assms(1,2) glob_match_only_star glob_match_refl
    by (auto simp: matchPattern_def simp del: glob_match.simps)
next
  case False
  have "parse_terms (star_to_dot_star (escape_special pattern)) = Some (map term_of pattern)"
    using parse_terms_encode[OF assms(3)] by (simp add: encode_pattern_def)
  then show ?thesis using False assms(1,2) regex_glob[OF assms(4)]
    by (simp add: matchPattern_def del: glob_match.simps)
qed

text \<open>
  Claim C4, as amended. For a non-empty pattern without \<open>?\<close> and a non-empty text
  without line terminators, \<open>matchPattern\<close> is the wildcard match of the specification:
  \<open>*\<close> matches any run of characters, the empty one included, every other character is
  literal, and case is ignored. \<open>match("*", text)\<close> is true for every non-empty text; an
  empty pattern or an empty text never matches; \<open>*sonnet*\<close> matches
  \<open>claude-3-5-sonnet-20241022\<close> and \<open>*haiku*\<close> does not match \<open>claude-sonnet-4\<close>.
\<close>

theorem matchPattern_wildcard:
  "(\<forall>pattern text. pattern \<noteq> [] \<and> text \<noteq> [] \<and> CHR ''?'' \<notin> set pattern \<and>
        (\<forall>c\<in>set text. \<not> is_line_terminator c) \<longrightarrow>
      matchPattern pattern text = glob_match pattern text) \<and>
   (\<forall>text. text \<noteq> [] \<longrightarrow> matchPattern ''*'' text) \<and>
   (\<forall>pattern text. pattern = [] \<or> text = [] \<longrightarrow> \<not> matchPattern pattern text) \<and>
   matchPattern ''*sonnet*'' ''claude-3-5-sonnet-20241022'' \<and>
   \<not> matchPattern ''*haiku*'' ''claude-sonnet-4''"
proof (intro conjI allI impI)
  fix pattern str
  assume "pattern \<noteq> [] \<and> str \<noteq> [] \<and> CHR ''?'' \<notin> set pattern \<and>
        (\<forall>c\<in>set str. \<not> is_line_terminator c)"
  then show "matchPattern pattern str = glob_match pattern str"
    using matchPattern_eq_glob by blast
next
  fix str :: string
  assume "str \<noteq> []"
  then show "matchPattern ''*'' str" by (simp add: matchPattern_def)
next
  fix pattern str :: string
  assume "pattern = [] \<or> str = []"
  then show "\<not> matchPattern pattern str" by (auto simp: matchPattern_def)
next
  show "matchPattern ''*sonnet*'' ''claude-3-5-sonnet-20241022''" by code_simp
next
  show "\<not> matchPattern ''*haiku*'' ''claude-sonnet-4''" by code_simp
qed

theorem matchPattern_wildcard_witness:
  "''claude-3-5-*'' \<noteq> [] \<and> ''Claude-3-5-Haiku'' \<noteq> [] \<and> CHR ''?'' \<notin> set ''claude-3-5-*'' \<and>
   list_all (\<lambda>c. \<not> is_line_terminator c) ''Claude-3-5-Haiku'' \<and>
   matchPattern ''claude-3-5-*'' ''Claude-3-5-Haiku'' = glob_match ''claude-3-5-*'' ''Claude-3-5-Haiku'' \<and>
   matchPattern ''claude-3-5-*'' ''Claude-3-5-Haiku''"
proof -
  have h: "''claude-3-5-*'' \<noteq> [] \<and> ''Claude-3-5-Haiku'' \<noteq> [] \<and> CHR ''?'' \<notin> set ''claude-3-5-*'' \<and>
     (\<forall>c\<in>set ''Claude-3-5-Haiku''. \<not> is_line_terminator c)"
    by (simp add: is_line_terminator_def)
  have m: "matchPattern ''claude-3-5-*'' ''Claude-3-5-Haiku''" by code_simp
  have "matchPattern ''claude-3-5-*'' ''Claude-3-5-Haiku'' = glob_match ''claude-3-5-*'' ''Claude-3-5-Haiku''"
    using matchPattern_wildcard h by blast
  moreover have "list_all (\<lambda>c. \<not> is_line_terminator c) ''Claude-3-5-Haiku''"
    by (simp add: is_line_terminator_def)
  ultimately show ?thesis using h m by blast
qed

text \<open>
  The claim as stated has \<open>match("*", text)\<close> true for the empty text as well; the guard
  \<open>!pattern || !text\<close> answers false there.
\<close>

theorem matchPattern_star_empty_counterexample: "\<not> matchPattern ''*'' ''''"
  by (simp add: matchPattern_def)

section \<open>Properties of the pricer\<close>







section \<open>Properties of the daily usage aggregation\<close>

lemma parse_lines_Some:
  "list_all2 (\<lambda>line r. parseLine line = Some r) lines records \<Longrightarrow>
     parse_lines parseLine lines = Some records"
  by (induction lines records rule: list_all2_induct) auto

lemma parse_lines_None:
  "\<exists>line\<in>set lines. parseLine line = None \<Longrightarrow> parse_lines parseLine lines = None"
proof (induction lines)
  case Nil
  then show ?case by simp
next
  case (Cons l ls)
  show ?case
  proof (cases "parseLine l")
    case None
    then show ?thesis by simp
  next
    case (Some r)
    then have "\<exists>line\<in>set ls. parseLine line = None" using Cons.prems by auto
    then have "parse_lines parseLine ls = None" by (rule Cons.IH)
    then show ?thesis using Some by simp
  qed
qed

lemma foldl_aggregate_step:
  "totalRequests (foldl (aggregate_step h) a rs) = totalRequests a + int (length rs) \<and>
   totalTokens (foldl (aggregate_step h) a rs) = totalTokens a + sum_list (map r_totalTokens rs) \<and>
   agg_inputTokens (foldl (aggregate_step h) a rs) = agg_inputTokens a + sum_list (map r_inputTokens rs) \<and>
   agg_outputTokens (foldl (aggregate_step h) a rs) = agg_outputTokens a + sum_list (map r_outputTokens rs) \<and>
   agg_cacheCreationTokens (foldl (aggregate_step h) a rs)
     = agg_cacheCreationTokens a + sum_list (map r_cacheCreationTokens rs) \<and>
   agg_cacheReadTokens (foldl (aggregate_step h) a rs)
     = agg_cacheReadTokens a + sum_list (map r_cacheReadTokens rs) \<and>
   agg_totalCost (foldl (aggregate_step h) a rs) = agg_totalCost a + sum_list (map r_totalCost rs) \<and>
   agg_inputCost (foldl (aggregate_step h) a rs) = agg_inputCost a + sum_list (map r_inputCost rs) \<and>
   agg_outputCost (foldl (aggregate_step h) a rs) = agg_outputCost a + sum_list (map r_outputCost rs) \<and>
   agg_cacheCreationCost (foldl (aggregate_step h) a rs)
     = agg_cacheCreationCost a + sum_list (map r_cacheCreationCost rs) \<and>
   agg_cacheReadCost (foldl (aggregate_step h) a rs)
     = agg_cacheReadCost a + sum_list (map r_cacheReadCost rs) \<and>
   totalDuration (foldl (aggregate_step h) a rs) = totalDuration a + sum_list (map r_duration rs)"
proof (induction rs arbitrary: a)
  case Nil
  show ?case by simp
next
  case (Cons r rs)
  have step: "totalRequests (aggregate_step h a r) = totalRequests a + 1"
    "totalTokens (aggregate_step h a r) = totalTokens a + r_totalTokens r"
    "agg_inputTokens (aggregate_step h a r) = agg_inputTokens a + r_inputTokens r"
    "agg_outputTokens (aggregate_step h a r) = agg_outputTokens a + r_outputTokens r"
    "agg_cacheCreationTokens (aggregate_step h a r) = agg_cacheCreationTokens a + r_cacheCreationTokens r"
    "agg_cacheReadTokens (aggregate_step h a r) = agg_cacheReadTokens a + r_cacheReadTokens r"
    "agg_totalCost (aggregate_step h a r) = agg_totalCost a + r_totalCost r"
    "agg_inputCost (aggregate_step h a r) = agg_inputCost a + r_inputCost r"
    "agg_outputCost (aggregate_step h a r) = agg_outputCost a + r_outputCost r"
    "agg_cacheCreationCost (aggregate_step h a r) = agg_cacheCreationCost a + r_cacheCreationCost r"
    "agg_cacheReadCost (aggregate_step h a r) = agg_cacheReadCost a + r_cacheReadCost r"
    "totalDuration (aggregate_step h a r) = totalDuration a + r_duration r"
    by (simp_all add: aggregate_step_def merge_record_def Let_def)
  show ?case using Cons.IH[of "aggregate_step h a r"] by (simp add: step)
qed

lemma aggregate_sums:
  "totalRequests (aggregateUsageRecords h rs) = int (length rs) \<and>
   totalTokens (aggregateUsageRecords h rs) = sum_list (map r_totalTokens rs) \<and>
   agg_inputTokens (aggregateUsageRecords h rs) = sum_list (map r_inputTokens rs) \<and>
   agg_outputTokens (aggregateUsageRecords h rs) = sum_list (map r_outputTokens rs) \<and>
   agg_cacheCreationTokens (aggregateUsageRecords h rs) = sum_list (map r_cacheCreationTokens rs) \<and>
   agg_cacheReadTokens (aggregateUsageRecords h rs) = sum_list (map r_cacheReadTokens rs) \<and>
   agg_totalCost (aggregateUsageRecords h rs) = sum_list (map r_totalCost rs) \<and>
   agg_inputCost (aggregateUsageRecords h rs) = sum_list (map r_inputCost rs) \<and>
   agg_outputCost (aggregateUsageRecords h rs) = sum_list (map r_outputCost rs) \<and>
   agg_cacheCreationCost (aggregateUsageRecords h rs) = sum_list (map r_cacheCreationCost rs) \<and>
   agg_cacheReadCost (aggregateUsageRecords h rs) = sum_list (map r_cacheReadCost rs) \<and>
   totalDuration (aggregateUsageRecords h rs) = sum_list (map r_duration rs)"
  using foldl_aggregate_step[of h getEmptyUsageAggregation rs]
  by (simp add: aggregateUsageRecords_def Let_def getEmptyUsageAggregation_def empty_totals_def
      totals.defs aggregation.defs)

lemma dropWhile_all_append: "\<forall>x\<in>set ws. P x \<Longrightarrow> dropWhile P (ws @ ys) = dropWhile P ys"
  by (induction ws) auto

lemma trim_ends:
  assumes "s \<noteq> []" "\<not> is_white_space (hd s)" "\<not> is_white_space (last s)"
    "list_all is_white_space ws"
  shows "trim (s @ ws) = s"
proof -
  have 1: "dropWhile is_white_space (s @ ws) = s @ ws"
    using assms(1,2) by (cases s) auto
  have "\<forall>x\<in>set (rev ws). is_white_space x" using assms(4) by (simp add: list_all_iff)
  then have "dropWhile is_white_space (rev ws @ rev s) = dropWhile is_white_space (rev s)"
    by (rule dropWhile_all_append)
  also have "\<dots> = rev s" using assms(1,3) by (cases s rule: rev_cases) auto
  finally have 2: "dropWhile is_white_space (rev ws @ rev s) = rev s" .
  show ?thesis by (simp add: trim_def 1 2)
qed

lemma trim_blank: "list_all is_white_space ws \<Longrightarrow> trim ws = []"
proof -
  assume "list_all is_white_space ws"
  then have "\<forall>x\<in>set ws. is_white_space x" by (simp add: list_all_iff)
  then have e: "dropWhile is_white_space ws = []" by (induction ws) auto
  show ?thesis unfolding trim_def e by simp
qed

lemma split_newline_append:
  "CHR 0x0A \<notin> set a \<Longrightarrow> split_newline (a @ CHR 0x0A # b) = a # split_newline b"
  by (induction a) (auto split: list.splits)

lemma split_newline_single: "CHR 0x0A \<notin> set a \<Longrightarrow> split_newline a = [a]"
  by (induction a) (auto split: list.splits)

lemma sample_line_facts:
  "CHR 0x0A \<notin> set sample_line" "sample_line \<noteq> []"
  "\<not> is_white_space (hd sample_line)" "\<not> is_white_space (last sample_line)"
  by (simp_all add: sample_line_def is_white_space_def)

lemma partial_line_facts:
  "CHR 0x0A \<notin> set partial_line" "partial_line \<noteq> []"
  "\<not> is_white_space (hd partial_line)" "\<not> is_white_space (last partial_line)"
  "partial_line \<noteq> sample_line"
  by (simp_all add: partial_line_def sample_line_def is_white_space_def)

lemma trim_sample_line: "trim sample_line = sample_line"
  using trim_ends[of sample_line "[]"] sample_line_facts by simp

lemma trim_partial_line: "trim partial_line = partial_line"
  using trim_ends[of partial_line "[]"] partial_line_facts by simp

lemma daily_lines_two_records: "daily_lines two_records_file = [sample_line, sample_line]"
proof -
  define body where "body = sample_line @ [CHR 0x0A, CHR 0x0A, CHR '' '', CHR 0x0A] @ sample_line"
  have b: "body \<noteq> []" "hd body = hd sample_line" "last body = last sample_line"
    using sample_line_facts(2) by (simp_all add: body_def)
  have "two_records_file = body @ [CHR 0x0A]" by (simp add: two_records_file_def body_def)
  then have t: "trim two_records_file = body"
    using trim_ends[of body "[CHR 0x0A]"] b sample_line_facts by (simp add: is_white_space_def)
  have "split_newline body = [sample_line, [], [CHR '' ''], sample_line]"
    unfolding body_def
    using split_newline_append[OF sample_line_facts(1)] split_newline_single[OF sample_line_facts(1)]
    by simp
  then show ?thesis
    using t trim_sample_line sample_line_facts(2) trim_blank[of "[CHR '' '']"] trim_blank[of "[]"]
    by (simp add: daily_lines_def is_white_space_def)
qed

lemma daily_lines_corrupt: "daily_lines corrupt_file = [sample_line, partial_line]"
proof -
  have b: "corrupt_file \<noteq> []" "hd corrupt_file = hd sample_line" "last corrupt_file = last partial_line"
    using sample_line_facts(2) partial_line_facts(2) by (simp_all add: corrupt_file_def)
  have t: "trim corrupt_file = corrupt_file"
    using trim_ends[of corrupt_file "[]"] b sample_line_facts partial_line_facts by simp
  have "split_newline corrupt_file = [sample_line, partial_line]"
    unfolding corrupt_file_def
    using split_newline_append[OF sample_line_facts(1)] split_newline_single[OF partial_line_facts(1)]
    by simp
  then show ?thesis
    using t trim_sample_line trim_partial_line sample_line_facts(2) partial_line_facts(2)
    by (simp add: daily_lines_def)
qed

text \<open>
  Claim C5, as amended. \<open>getDailyUsage\<close> reads the day file and skips the blank lines.
  When every remaining line parses, the result is the aggregation of the parsed records,
  whose counters and costs are the sums over these records; when one of the remaining
  lines does not parse, the call fails with the parse error and returns no aggregation.
  A missing file gives the empty aggregation.
\<close>

theorem getDailyUsage_skips_blank_lines_only:
  "(\<forall>records. list_all2 (\<lambda>line r. parseLine line = Some r) (daily_lines content) records \<longrightarrow>
      getDailyUsage parseLine getHours (Inr content) = Inr (aggregateUsageRecords getHours records) \<and>
      totalRequests (aggregateUsageRecords getHours records) = int (length records) \<and>
      totalTokens (aggregateUsageRecords getHours records) = sum_list (map r_totalTokens records) \<and>
      agg_inputTokens (aggregateUsageRecords getHours records) = sum_list (map r_inputTokens records) \<and>
      agg_outputTokens (aggregateUsageRecords getHours records) = sum_list (map r_outputTokens records) \<and>
      agg_totalCost (aggregateUsageRecords getHours records) = sum_list (map r_totalCost records)) \<and>
   ((\<exists>line\<in>set (daily_lines content). parseLine line = None) \<longrightarrow>
      getDailyUsage parseLine getHours (Inr content) = Inl SyntaxError) \<and>
   (\<forall>line\<in>set (split_newline (trim content)).
      line \<in> set (daily_lines content) \<longleftrightarrow> trim line \<noteq> []) \<and>
   getDailyUsage parseLine getHours (Inl ENOENT) = Inr getEmptyUsageAggregation"
proof (intro conjI allI impI)
  fix records
  assume a: "list_all2 (\<lambda>line r. parseLine line = Some r) (daily_lines content) records"
  show "getDailyUsage parseLine getHours (Inr content) = Inr (aggregateUsageRecords getHours records)"
    using parse_lines_Some[OF a] by (simp add: getDailyUsage_def daily_lines_def)
  show "totalRequests (aggregateUsageRecords getHours records) = int (length records)"
    "totalTokens (aggregateUsageRecords getHours records) = sum_list (map r_totalTokens records)"
    "agg_inputTokens (aggregateUsageRecords getHours records) = sum_list (map r_inputTokens records)"
    "agg_outputTokens (aggregateUsageRecords getHours records) = sum_list (map r_outputTokens records)"
    "agg_totalCost (aggregateUsageRecords getHours records) = sum_list (map r_totalCost records)"
    using aggregate_sums[of getHours records] by simp_all
next
  assume "\<exists>line\<in>set (daily_lines content). parseLine line = None"
  then show "getDailyUsage parseLine getHours (Inr content) = Inl SyntaxError"
    using parse_lines_None[of "daily_lines content" parseLine]
    by (simp add: getDailyUsage_def daily_lines_def)
next
  show "\<forall>line\<in>set (split_newline (trim content)).
      line \<in> set (daily_lines content) \<longleftrightarrow> trim line \<noteq> []"
    by (simp add: daily_lines_def)
next
  show "getDailyUsage parseLine getHours (Inl ENOENT) = Inr getEmptyUsageAggregation"
    by (simp add: getDailyUsage_def)
qed

theorem getDailyUsage_skips_blank_lines_only_witness:
  "list_all2 (\<lambda>line r. parse_sample line = Some r) (daily_lines two_records_file)
      [sample_record, sample_record] \<and>
   getDailyUsage parse_sample noon (Inr two_records_file)
     = Inr (aggregateUsageRecords noon [sample_record, sample_record]) \<and>
   totalRequests (aggregateUsageRecords noon [sample_record, sample_record]) = 2 \<and>
   agg_totalCost (aggregateUsageRecords noon [sample_record, sample_record]) = 3"
proof -
  have h: "list_all2 (\<lambda>line r. parse_sample line = Some r) (daily_lines two_records_file)
      [sample_record, sample_record]"
    by (simp add: daily_lines_two_records parse_sample_def trim_sample_line)
  from getDailyUsage_skips_blank_lines_only[of parse_sample two_records_file noon] h
  have "getDailyUsage parse_sample noon (Inr two_records_file)
          = Inr (aggregateUsageRecords noon [sample_record, sample_record]) \<and>
        totalRequests (aggregateUsageRecords noon [sample_record, sample_record])
          = int (length [sample_record, sample_record]) \<and>
        agg_totalCost (aggregateUsageRecords noon [sample_record, sample_record])
          = sum_list (map r_totalCost [sample_record, sample_record])"
    by blast
  then show ?thesis using h by (simp add: sample_record_def)
qed

text \<open>
  The claim as stated has a malformed line skipped. A file whose first line is a
  well-formed record and whose second line is a partial write makes the call fail.
\<close>

theorem getDailyUsage_malformed_line_counterexample:
  "parse_sample sample_line = Some sample_record \<and> parse_sample partial_line = None \<and>
   getDailyUsage parse_sample noon (Inr (sample_line @ [CHR 0x0A] @ partial_line)) = Inl SyntaxError"
  using daily_lines_corrupt
  by (simp add: getDailyUsage_def daily_lines_def parse_sample_def
      trim_sample_line trim_partial_line partial_line_facts corrupt_file_def)

section \<open>Properties of the proxy core\<close>

subsection \<open>Headers and upstream errors\<close>

lemma on_event_direct: "is_direct (run_res run) \<Longrightarrow> is_direct (run_res (on_event env ctx run ev))"
  by (cases ev; cases "run_res run")
     (auto simp: on_event_def is_direct_def writeHead_def write_chunk_def end_response_def
           split: option.splits)

lemma head_count_no_response:
  assumes "is_direct (run_res run)" "\<not> is_response ev"
  shows "head_count (on_event env ctx run ev) =
           (if head_count run = 0 \<and> is_error ev then 1 else head_count run)"
  using assms
  by (cases ev; cases "run_res run")
     (auto simp: on_event_def is_direct_def is_response_def is_error_def head_count_def
           headersSent_def client_response_def writeHead_def write_chunk_def end_response_def
           res_writeHead_def res_write_def res_end_def
           split: option.splits)

lemma head_count_response:
  assumes "is_direct (run_res run)"
  shows "head_count (on_event env ctx run (Response s h)) = Suc (head_count run)"
  using assms
  by (cases "run_res run")
     (auto simp: on_event_def is_direct_def head_count_def client_response_def writeHead_def
           res_writeHead_def)

lemma head_count_tail:
  "is_direct (run_res run) \<Longrightarrow> list_all (\<lambda>x. \<not> is_response x) es \<Longrightarrow>
     head_count (foldl (on_event env ctx) run es) =
       (if head_count run = 0 \<and> (\<exists>e\<in>set es. is_error e) then 1 else head_count run)"
proof (induction es arbitrary: run)
  case Nil
  then show ?case by simp
next
  case (Cons e es)
  have d: "is_direct (run_res (on_event env ctx run e))" by (rule on_event_direct[OF Cons.prems(1)])
  have ne: "\<not> is_response e" and rest: "list_all (\<lambda>x. \<not> is_response x) es" using Cons.prems(2) by auto
  show ?case
    using Cons.IH[OF d rest] head_count_no_response[OF Cons.prems(1) ne, of env ctx]
    by (auto split: if_splits)
qed

lemma head_count_wf:
  "is_direct (run_res run) \<Longrightarrow> head_count run = 0 \<Longrightarrow> wf_events es \<Longrightarrow>
     head_count (foldl (on_event env ctx) run es) =
       (if \<exists>e\<in>set es. is_response e \<or> is_error e then 1 else 0)"
proof (induction es arbitrary: run)
  case Nil
  then show ?case by simp
next
  case (Cons e es)
  have d: "is_direct (run_res (on_event env ctx run e))" by (rule on_event_direct[OF Cons.prems(1)])
  show ?case
  proof (cases "is_response e \<or> is_error e")
    case True
    then have rest: "list_all (\<lambda>x. \<not> is_response x) es" using Cons.prems(3) by simp
    have "head_count (on_event env ctx run e) = 1"
    proof (cases "is_response e")
      case True
      then obtain s h where "e = Response s h" by (cases e) (auto simp: is_response_def)
      then show ?thesis using head_count_response[OF Cons.prems(1)] Cons.prems(2) by simp
    next
      case False
      then show ?thesis
        using head_count_no_response[OF Cons.prems(1) False] True Cons.prems(2) by simp
    qed
    then show ?thesis using head_count_tail[OF d rest] True by simp
  next
    case False
    then have wf: "wf_events es" using Cons.prems(3) by simp
    have "head_count (on_event env ctx run e) = 0"
      using head_count_no_response[OF Cons.prems(1), of e] False Cons.prems(2) by simp
    then show ?thesis using Cons.IH[OF d _ wf] False by simp
  qed
qed


lemma on_event_ignored:
  "run_statusCode run = None \<Longrightarrow> \<not> is_response e \<Longrightarrow> \<not> is_error e \<Longrightarrow>
     on_event env ctx run e = run"
  by (cases e) (auto simp: on_event_def is_response_def is_error_def)

lemma foldl_ignored:
  "run_statusCode run = None \<Longrightarrow> \<forall>e\<in>set es. \<not> is_response e \<and> \<not> is_error e \<Longrightarrow>
     foldl (on_event env ctx) run es = run"
  by (induction es) (auto simp: on_event_ignored)

lemma on_event_after_error:
  "run_statusCode run = None \<Longrightarrow> headersSent (run_res run) \<Longrightarrow> run_resolved run \<Longrightarrow>
     \<not> is_response e \<Longrightarrow> on_event env ctx run e = run"
  by (cases e) (auto simp: on_event_def is_response_def)

lemma foldl_after_error:
  "run_statusCode run = None \<Longrightarrow> headersSent (run_res run) \<Longrightarrow> run_resolved run \<Longrightarrow>
     list_all (\<lambda>x. \<not> is_response x) es \<Longrightarrow> foldl (on_event env ctx) run es = run"
  by (induction es) (auto simp: on_event_after_error)

lemma wf_events_after:
  "\<forall>e\<in>set pre. \<not> is_response e \<and> \<not> is_error e \<Longrightarrow> wf_events (pre @ Error msg # post) \<Longrightarrow>
     list_all (\<lambda>x. \<not> is_response x) post"
  by (induction pre) (auto simp: is_error_def)

lemma error_first:
  assumes pre: "\<forall>e\<in>set pre. \<not> is_response e \<and> \<not> is_error e"
    and wf: "wf_events (pre @ Error msg # post)"
  shows "run_res (proxyRequest env ctx True (pre @ Error msg # post) (Direct new_response)) =
           Direct (res_end
             (Some (JSON_stringify env
                      (createErrorResponse env ''upstream_error''
                         (''upstream server error: '' @ msg) (ctx_requestId ctx))))
             (res_writeHead 502 [(''Content-Type'', HStr ''application/json'')] new_response))"
proof -
  define run0 where "run0 = \<lparr>run_res = Direct new_response, run_responseBody = [],
      run_statusCode = None, run_resolved = False, run_recorded = []\<rparr>"
  define run1 where "run1 = on_event env ctx run0 (Error msg)"
  have s0: "run_statusCode run0 = None" by (simp add: run0_def)
  have 1: "foldl (on_event env ctx) run0 pre = run0" by (rule foldl_ignored[OF s0 pre])
  have r1: "run_res run1 = Direct (res_end
             (Some (JSON_stringify env
                      (createErrorResponse env ''upstream_error''
                         (''upstream server error: '' @ msg) (ctx_requestId ctx))))
             (res_writeHead 502 [(''Content-Type'', HStr ''application/json'')] new_response))"
    by (simp add: run1_def run0_def on_event_def headersSent_def client_response_def
        new_response_def writeHead_def end_response_def)
  have p1: "run_statusCode run1 = None" "run_resolved run1"
    by (simp_all add: run1_def run0_def on_event_def headersSent_def client_response_def
        new_response_def)
  have h1: "headersSent (run_res run1)"
    unfolding r1 by (simp add: headersSent_def client_response_def res_end_def res_writeHead_def
        split: option.splits)
  have 2: "foldl (on_event env ctx) run1 post = run1"
    by (rule foldl_after_error[OF p1(1) h1 p1(2) wf_events_after[OF pre wf]])
  have "proxyRequest env ctx True (pre @ Error msg # post) (Direct new_response) = run1"
    using 1 2 by (simp add: proxyRequest_def run0_def[symmetric] run1_def[symmetric])
  then show ?thesis using r1 by simp
qed

text \<open>
  Claim C3, as amended. Within one proxied request whose upstream events come in Node's
  order, response headers are written to the client at most once, and exactly once as
  soon as the upstream has answered or failed. If the upstream request errors before a
  response arrived, the client gets 502 with a JSON body of error type \<open>upstream_error\<close>
  that carries the request id, and the response is ended. If headers have already been
  sent, the error handler writes nothing to the client: no error body, and it does not
  end the client's stream either.
\<close>

theorem proxyRequest_writes_headers_once:
  assumes wf: "wf_events events"
  shows "length (heads (client_response (run_res
             (proxyRequest env ctx True events (Direct new_response)))))
           = (if \<exists>e\<in>set events. is_response e \<or> is_error e then 1 else 0) \<and>
         (\<forall>pre msg post.
            events = pre @ Error msg # post \<and> (\<forall>e\<in>set pre. \<not> is_response e \<and> \<not> is_error e) \<longrightarrow>
              run_res (proxyRequest env ctx True events (Direct new_response)) =
                Direct (res_end
                  (Some (JSON_stringify env
                           (createErrorResponse env ''upstream_error''
                              (''upstream server error: '' @ msg) (ctx_requestId ctx))))
                  (res_writeHead 502 [(''Content-Type'', HStr ''application/json'')] new_response))) \<and>
         (\<forall>run msg. headersSent (run_res run) \<longrightarrow>
            on_event env ctx run (Error msg) = run\<lparr>run_resolved := True\<rparr>)"
proof (intro conjI allI impI)
  define run0 where "run0 = \<lparr>run_res = Direct new_response, run_responseBody = [],
      run_statusCode = None, run_resolved = False, run_recorded = []\<rparr>"
  have d: "is_direct (run_res run0)" by (simp add: run0_def is_direct_def)
  have z: "head_count run0 = 0"
    by (simp add: run0_def head_count_def client_response_def new_response_def)
  have "head_count (foldl (on_event env ctx) run0 events) =
       (if \<exists>e\<in>set events. is_response e \<or> is_error e then 1 else 0)"
    by (rule head_count_wf[OF d z wf])
  then show "length (heads (client_response (run_res
             (proxyRequest env ctx True events (Direct new_response)))))
           = (if \<exists>e\<in>set events. is_response e \<or> is_error e then 1 else 0)"
    by (simp add: proxyRequest_def run0_def head_count_def)
next
  fix pre msg post
  assume a: "events = pre @ Error msg # post \<and> (\<forall>e\<in>set pre. \<not> is_response e \<and> \<not> is_error e)"
  then have wf': "wf_events (pre @ Error msg # post)" using wf by simp
  show "run_res (proxyRequest env ctx True events (Direct new_response)) =
                Direct (res_end
                  (Some (JSON_stringify env
                           (createErrorResponse env ''upstream_error''
                              (''upstream server error: '' @ msg) (ctx_requestId ctx))))
                  (res_writeHead 502 [(''Content-Type'', HStr ''application/json'')] new_response))"
    using error_first[OF _ wf'] a by simp
next
  fix run :: proxy_run and msg
  assume "headersSent (run_res run)"
  then show "on_event env ctx run (Error msg) = run\<lparr>run_resolved := True\<rparr>"
    by (simp add: on_event_def)
qed

theorem proxyRequest_writes_headers_once_witness:
  "wf_events [Timeout, Error ''socket hang up'', Data ''late''] \<and>
   heads (client_response (run_res (proxyRequest example_env example_context True
            [Timeout, Error ''socket hang up'', Data ''late''] (Direct new_response))))
     = [(502, [(''Content-Type'', HStr ''application/json'')])] \<and>
   written (client_response (run_res (proxyRequest example_env example_context True
            [Timeout, Error ''socket hang up'', Data ''late''] (Direct new_response))))
     = [JSON_stringify example_env
          (createErrorResponse example_env ''upstream_error''
             ''upstream server error: socket hang up'' ''req-1'')] \<and>
   finished (client_response (run_res (proxyRequest example_env example_context True
            [Timeout, Error ''socket hang up'', Data ''late''] (Direct new_response))))"
proof -
  have wf: "wf_events [Timeout, Error ''socket hang up'', Data ''late'']"
    by (simp add: is_response_def is_error_def)
  have split: "[Timeout, Error ''socket hang up'', Data ''late'']
      = [Timeout] @ Error ''socket hang up'' # [Data ''late''] \<and>
      (\<forall>e\<in>set [Timeout]. \<not> is_response e \<and> \<not> is_error e)"
    by (simp add: is_response_def is_error_def)
  have "run_res (proxyRequest example_env example_context True
            [Timeout, Error ''socket hang up'', Data ''late''] (Direct new_response)) =
        Direct (res_end
          (Some (JSON_stringify example_env
                   (createErrorResponse example_env ''upstream_error''
                      (''upstream server error: '' @ ''socket hang up'') (ctx_requestId example_context))))
          (res_writeHead 502 [(''Content-Type'', HStr ''application/json'')] new_response))"
    using proxyRequest_writes_headers_once[OF wf, of example_env example_context] split by blast
  then show ?thesis using wf
    by (simp add: client_response_def res_end_def res_writeHead_def new_response_def
        example_context_def example_env_def)
qed

text \<open>
  The claim as stated has the stream terminated when the error comes after the headers.
  After a response with status 200, one chunk and an error of the upstream request, the
  client has the status line and the chunk, and its response has not been ended.
\<close>

theorem proxyRequest_error_after_headers_counterexample:
  "heads (client_response (run_res (proxyRequest example_env example_context True
            [Response 200 [], Data ''partial'', Error ''socket hang up''] (Direct new_response))))
     = [(200, [])] \<and>
   written (client_response (run_res (proxyRequest example_env example_context True
            [Response 200 [], Data ''partial'', Error ''socket hang up''] (Direct new_response))))
     = [''partial''] \<and>
   \<not> finished (client_response (run_res (proxyRequest example_env example_context True
            [Response 200 [], Data ''partial'', Error ''socket hang up''] (Direct new_response))))"
  by (simp add: proxyRequest_def on_event_def headersSent_def client_response_def writeHead_def
      write_chunk_def res_writeHead_def res_write_def new_response_def)

subsection \<open>The OpenAI non-streaming path\<close>








subsection \<open>The limit check of \<open>handleRequest\<close>\<close>

lemma extractTokenUsage_no_usage:
  assumes "JSON_parse env body = Some parsed" "get_prop parsed ''usage'' = None"
    and "\<not> includes_str body ''event: message_start''"
    and "\<not> includes_str body ''event: message_delta''"
  shows "extractTokenUsage env body = None"
  using assms by (cases parsed) (simp_all add: extractTokenUsage_def truthy_def)

lemma example_parse:
  "JSON_parse example_env example_request_body = Some example_request_json"
  by (simp add: example_env_def)

lemma example_auth:
  "authenticate example_env (dep_tenants example_deps) example_request example_request_body =
     AuthSuccess example_tenant (Some ''claude-3-5-haiku-20241022'')"
  unfolding authenticate_def extractModelFromBody_def example_parse
  by (simp add: example_deps_def example_request_def example_tenant_def getTenantByKey_def
        startsWith_def example_request_json_def get_prop_def example_request_body_def
        findMatchingPattern_def matchPattern_def)

lemma example_no_sse:
  "\<not> includes_str example_request_body ''event: message_start''"
  "\<not> includes_str example_request_body ''event: message_delta''"
  by (simp_all add: example_request_body_def startsWith_def)

lemma calculateCost_zero_usage: "totalCost (calculateCost pricing model zero_usage) = 0"
proof -
  have "round6 0 = 0" by (simp add: round6_def Math_round_def floor_eq_iff)
  then show ?thesis
    by (simp add: calculateCost_def zero_usage_def Let_def split: option.splits)
qed

lemma example_check:
  "checkLimitsExceeded (dep_tenants example_deps) (dep_pricing example_deps)
     (dep_todayUsage example_deps) ''t1'' ''claude-3-5-haiku-20241022'' zero_usage =
     Inr (LimitExceeded 150 0 150 100)"
  by (simp add: checkLimitsExceeded_def example_deps_def example_tenant_def getTenant_def
        spent_150_def getEmptyUsageAggregation_def calculateCost_zero_usage Let_def)

lemma example_select:
  "\<exists>lb'. selectUpstream (dep_upstreamsConfig example_deps) 0 (fresh_balancer [upstream_A, upstream_B]) =
     Inr (upstream_A, lb')"
  by (simp add: example_deps_def fresh_balancer_def no_probe_def lb_fixture_defs lb_run_defs Let_def)

lemma example_run:
  "run_res (proxyRequest env ctx True [Response 200 [], Data body, End] (Direct new_response)) =
     Direct (res_end None (res_write body (res_writeHead 200 [] new_response)))"
  by (simp add: proxyRequest_def Let_def on_event_def writeHead_def write_chunk_def end_response_def)

text \<open>
  Claim C1, what the code does. \<open>handleRequest\<close> calls \<open>checkLimitsExceeded\<close> only when
  \<open>extractTokenUsage\<close>, the extractor of the usage of a response, finds a usage in the
  body of the request. For an authenticated request with a model whose body parses to a
  value without a member \<open>usage\<close> and holds no event of a stream, it finds none: the
  request goes on to the selection of an upstream and is proxied, whatever the tenant has
  spent today and whatever the cap is.
\<close>

theorem handleRequest_checks_limits_only_with_usage_in_request:
  assumes auth: "authenticate env (dep_tenants deps) req requestBody = AuthSuccess tenant (Some model)"
    and parsed: "JSON_parse env requestBody = Some parsed"
    and no_usage: "get_prop parsed ''usage'' = None"
    and no_sse: "\<not> includes_str requestBody ''event: message_start''"
                "\<not> includes_str requestBody ''event: message_delta''"
  shows "extractTokenUsage env requestBody = None \<and>
         handleRequest env deps req requestId requestBody r setup_ok events res lb =
           (case selectUpstream (dep_upstreamsConfig deps) r lb of
              Inl e \<Rightarrow>
                (finished_run (sendErrorResponse env ''internal_error'' ''internal server error''
                                 500 requestId res), lb)
            | Inr (upstream, lb') \<Rightarrow>
                (proxyRequest env
                   \<lparr>ctx_requestId = requestId, ctx_tenant = Some tenant, ctx_model = Some model,
                    ctx_requestBody = requestBody, ctx_upstream = upstream\<rparr>
                   setup_ok events res, lb'))"
proof -
  have none: "extractTokenUsage env requestBody = None"
    by (rule extractTokenUsage_no_usage[OF parsed no_usage no_sse])
  show ?thesis
    by (simp add: none handleRequest_def auth exceeded_def)
qed

text \<open>
  A tenant with a cap of 100 dollars who has spent 150 today sends a messages request:
  \<open>checkLimitsExceeded\<close>, had it been called with no tokens, reports the cap exceeded,
  and the request is proxied and answered with the status 200 of the upstream.
\<close>

theorem handleRequest_checks_limits_only_with_usage_in_request_witness:
  "authenticate example_env (dep_tenants example_deps) example_request example_request_body =
     AuthSuccess example_tenant (Some ''claude-3-5-haiku-20241022'') \<and>
   JSON_parse example_env example_request_body = Some example_request_json \<and>
   get_prop example_request_json ''usage'' = None \<and>
   \<not> includes_str example_request_body ''event: message_start'' \<and>
   \<not> includes_str example_request_body ''event: message_delta'' \<and>
   tn_maxUSD example_tenant = Some 100 \<and>
   dep_todayUsage example_deps (tn_id example_tenant) = Inr spent_150 \<and>
   agg_totalCost spent_150 = 150 \<and>
   checkLimitsExceeded (dep_tenants example_deps) (dep_pricing example_deps)
     (dep_todayUsage example_deps) (tn_id example_tenant) ''claude-3-5-haiku-20241022'' zero_usage =
     Inr (LimitExceeded 150 0 150 100) \<and>
   extractTokenUsage example_env example_request_body = None \<and>
   run_res (fst (handleRequest example_env example_deps example_request ''req-1''
                   example_request_body 0 True
                   [Response 200 [], Data example_response_body, End]
                   (Direct new_response) (fresh_balancer [upstream_A, upstream_B]))) =
     Direct \<lparr>heads = [(200, [])], written = [example_response_body], finished = True\<rparr>"
proof -
  have nu: "get_prop example_request_json ''usage'' = None"
    by (simp add: example_request_json_def get_prop_def)
  note inst = handleRequest_checks_limits_only_with_usage_in_request
    [OF example_auth example_parse nu example_no_sse,
     of "''req-1''" 0 True "[Response 200 [], Data example_response_body, End]"
        "Direct new_response" "fresh_balancer [upstream_A, upstream_B]"]
  obtain lb' where sel: "selectUpstream (dep_upstreamsConfig example_deps) 0
      (fresh_balancer [upstream_A, upstream_B]) = Inr (upstream_A, lb')"
    using example_select by blast
  have run: "run_res (fst (handleRequest example_env example_deps example_request ''req-1''
                   example_request_body 0 True
                   [Response 200 [], Data example_response_body, End]
                   (Direct new_response) (fresh_balancer [upstream_A, upstream_B]))) =
     Direct \<lparr>heads = [(200, [])], written = [example_response_body], finished = True\<rparr>"
  proof -
    have "res_end None (res_write example_response_body (res_writeHead 200 [] new_response)) =
        \<lparr>heads = [(200, [])], written = [example_response_body], finished = True\<rparr>"
      by (simp add: res_end_def res_write_def res_writeHead_def new_response_def)
    moreover have "fst (handleRequest example_env example_deps example_request ''req-1''
                   example_request_body 0 True
                   [Response 200 [], Data example_response_body, End]
                   (Direct new_response) (fresh_balancer [upstream_A, upstream_B])) =
        proxyRequest example_env
          \<lparr>ctx_requestId = ''req-1'', ctx_tenant = Some example_tenant,
           ctx_model = Some ''claude-3-5-haiku-20241022'',
           ctx_requestBody = example_request_body, ctx_upstream = upstream_A\<rparr>
          True [Response 200 [], Data example_response_body, End] (Direct new_response)"
      using inst by (simp add: sel)
    ultimately show ?thesis
      by (simp only: example_run)
  qed
  have misc: "tn_maxUSD example_tenant = Some 100"
    "dep_todayUsage example_deps (tn_id example_tenant) = Inr spent_150"
    "agg_totalCost spent_150 = 150" "tn_id example_tenant = ''t1''"
    by (simp_all add: example_tenant_def example_deps_def spent_150_def)
  show ?thesis
    using inst example_auth example_parse nu example_no_sse example_check run misc
    by simp
qed

end
